theory Spec2Isabelle
  imports Complex_Main "HOL-Library.AList" "HOL-Library.Product_Lexorder" "HOL-Library.Multiset"
begin

section \<open>Cards (cards.py)\<close>

text \<open>
  The five strings of \<^verbatim>\<open>ARTISTS\<close> and of \<^verbatim>\<open>AUCTION_TYPES\<close> are the only values the
  deck builder ever stores in a card, so each list is a datatype whose constructors
  are declared in the order of the Python list.
\<close>

datatype artist = Orange_Tarou | Green_Tarou | Blue_Tarou | Yellow_Tarou | Red_Tarou

datatype auction_kind = Open | Once_Around | Sealed | Fixed_Price | Double

definition ARTISTS :: "artist list" where
  "ARTISTS = [Orange_Tarou, Green_Tarou, Blue_Tarou, Yellow_Tarou, Red_Tarou]"

definition AUCTION_TYPES :: "auction_kind list" where
  "AUCTION_TYPES = [Open, Once_Around, Sealed, Fixed_Price, Double]"

definition STARTING_MONEY :: int where
  "STARTING_MONEY = 100000"

definition MAX_ROUNDS :: int where
  "MAX_ROUNDS = 4"

definition ROUND_END_CARD_COUNT :: int where
  "ROUND_END_CARD_COUNT = 5"

text \<open>\<^verbatim>\<open>Card\<close>: the field \<^verbatim>\<open>auction_type\<close> is called \<open>card_type\<close> here, since the
  auction has a field of the same name.\<close>

record Card =
  card_id :: nat
  artist :: artist
  card_type :: auction_kind

section \<open>The auction state machine (auction.py)\<close>

datatype AuctionState =
  WAITING_FOR_BIDS | WAITING_FOR_PRICE | WAITING_FOR_ACCEPT | WAITING_FOR_DOUBLE | RESOLVED

text \<open>\<^verbatim>\<open>AuctionResult\<close>; its \<^verbatim>\<open>seller_index\<close> is \<open>result_seller\<close> here.\<close>

record AuctionResult =
  winner_index :: int
  price :: int
  result_seller :: int

text \<open>The error strings that the auction methods return, one constructor per message.\<close>

datatype auction_error =
  Wrong_auction_type
  | Seller_cannot_bid
  | Bid_must_be_higher int
  | Bid_not_multiple_of_1000
  | Not_your_turn
  | Already_submitted_a_bid
  | Invalid_bid_amount
  | Not_waiting_for_price
  | Price_must_be_positive
  | Price_not_multiple_of_1000

text \<open>
  \<^verbatim>\<open>Auction\<close>. The dictionary \<^verbatim>\<open>bids\<close> is an association list in insertion order
  (\<open>AList.update\<close> overwrites a key in place and appends a new key, as a Python
  \<^verbatim>\<open>dict\<close> does); player indices and the sentinel \<open>-1\<close> are integers. The field
  \<^verbatim>\<open>card\<close> is \<open>auction_card\<close>.
\<close>

record Auction =
  auction_type :: auction_kind
  seller_index :: int
  auction_card :: Card
  num_players :: nat
  double_card :: "Card option"
  state :: AuctionState
  current_bid :: int
  current_bidder :: int
  fixed_price :: int
  bids :: "(int \<times> int) list"
  passed :: "int list"
  current_turn_index :: int
  sealed_bids_received :: int

text \<open>The constructor with the dataclass defaults, followed by \<^verbatim>\<open>__post_init__\<close>.\<close>

definition new_Auction :: "auction_kind \<Rightarrow> int \<Rightarrow> Card \<Rightarrow> nat \<Rightarrow> Card option \<Rightarrow> Auction" where
  "new_Auction ty seller c n dc =
     \<lparr> auction_type = ty, seller_index = seller, auction_card = c, num_players = n,
       double_card = dc,
       state = (if ty = Fixed_Price then WAITING_FOR_PRICE else WAITING_FOR_BIDS),
       current_bid = 0, current_bidder = -1, fixed_price = 0,
       bids = [], passed = [], current_turn_index = -1, sealed_bids_received = 0 \<rparr>"

definition get_next_player :: "Auction \<Rightarrow> int \<Rightarrow> int" where
  "get_next_player a from_index =
     (case List.find (\<lambda>idx. idx \<notin> set (passed a))
             (map (\<lambda>i. (from_index + int i) mod int (num_players a)) [1..<num_players a]) of
        Some idx \<Rightarrow> idx
      | None \<Rightarrow> -1)"

definition get_can_act_player :: "Auction \<Rightarrow> int" where
  "get_can_act_player a =
     (if state a = RESOLVED then -1
      else if auction_type a = Open then -1
      else if auction_type a = Once_Around then current_turn_index a
      else if auction_type a = Sealed then -1
      else if auction_type a = Fixed_Price then
        (if state a = WAITING_FOR_PRICE then seller_index a else current_turn_index a)
      else -1)"

subsection \<open>Open auction\<close>

definition open_bid :: "Auction \<Rightarrow> int \<Rightarrow> int \<Rightarrow> auction_error option \<times> Auction" where
  "open_bid a player_index amount =
     (if auction_type a \<noteq> Open then (Some Wrong_auction_type, a)
      else if player_index = seller_index a then (Some Seller_cannot_bid, a)
      else if amount \<le> current_bid a then (Some (Bid_must_be_higher (current_bid a)), a)
      else if amount mod 1000 \<noteq> 0 then (Some Bid_not_multiple_of_1000, a)
      else (None, a\<lparr> current_bid := amount, current_bidder := player_index,
                      bids := AList.update player_index amount (bids a) \<rparr>))"

definition open_pass :: "Auction \<Rightarrow> int \<Rightarrow> Auction" where
  "open_pass a player_index =
     (if player_index \<notin> set (passed a) then a\<lparr> passed := passed a @ [player_index] \<rparr> else a)"

text \<open>The list \<^verbatim>\<open>active\<close> of \<^verbatim>\<open>check_open_resolved\<close>.\<close>

definition open_active :: "Auction \<Rightarrow> int list" where
  "open_active a =
     filter (\<lambda>i. i \<noteq> seller_index a \<and> i \<notin> set (passed a)) (map int [0..<num_players a])"

definition check_open_resolved :: "Auction \<Rightarrow> AuctionResult option \<times> Auction" where
  "check_open_resolved a =
     (let active = open_active a in
      if length active = 0
         \<or> (length active = 1 \<and> active ! 0 = current_bidder a \<and> current_bid a > 0)
      then (if current_bidder a = -1
            then (Some \<lparr> winner_index = seller_index a, price = 0,
                         result_seller = seller_index a \<rparr>, a\<lparr> state := RESOLVED \<rparr>)
            else (Some \<lparr> winner_index = current_bidder a, price = current_bid a,
                         result_seller = seller_index a \<rparr>, a\<lparr> state := RESOLVED \<rparr>))
      else (None, a))"

subsection \<open>Once around\<close>

definition start_once_around :: "Auction \<Rightarrow> Auction" where
  "start_once_around a =
     a\<lparr> current_turn_index := get_next_player a (seller_index a), state := WAITING_FOR_BIDS \<rparr>"

definition once_around_bid :: "Auction \<Rightarrow> int \<Rightarrow> int \<Rightarrow> auction_error option \<times> Auction" where
  "once_around_bid a player_index amount =
     (if player_index \<noteq> current_turn_index a then (Some Not_your_turn, a)
      else if amount \<le> current_bid a then (Some (Bid_must_be_higher (current_bid a)), a)
      else if amount mod 1000 \<noteq> 0 then (Some Bid_not_multiple_of_1000, a)
      else (let a1 = a\<lparr> current_bid := amount, current_bidder := player_index,
                         bids := AList.update player_index amount (bids a),
                         passed := passed a @ [player_index] \<rparr>
            in (None, a1\<lparr> current_turn_index := get_next_player a1 player_index \<rparr>)))"

definition once_around_pass :: "Auction \<Rightarrow> int \<Rightarrow> Auction" where
  "once_around_pass a player_index =
     (let a1 = (if player_index \<notin> set (passed a)
                then a\<lparr> passed := passed a @ [player_index] \<rparr> else a)
      in a1\<lparr> current_turn_index := get_next_player a1 player_index \<rparr>)"

definition check_once_around_resolved :: "Auction \<Rightarrow> AuctionResult option \<times> Auction" where
  "check_once_around_resolved a =
     (if current_turn_index a = seller_index a \<or> current_turn_index a = -1
      then (if current_bidder a = -1
            then (Some \<lparr> winner_index = seller_index a, price = 0,
                         result_seller = seller_index a \<rparr>, a\<lparr> state := RESOLVED \<rparr>)
            else (Some \<lparr> winner_index = current_bidder a, price = current_bid a,
                         result_seller = seller_index a \<rparr>, a\<lparr> state := RESOLVED \<rparr>))
      else (None, a))"

subsection \<open>Sealed bid\<close>

definition sealed_bid :: "Auction \<Rightarrow> int \<Rightarrow> int \<Rightarrow> auction_error option \<times> Auction" where
  "sealed_bid a player_index amount =
     (if player_index = seller_index a then (Some Seller_cannot_bid, a)
      else if player_index \<in> fst ` set (bids a) then (Some Already_submitted_a_bid, a)
      else if amount < 0 then (Some Invalid_bid_amount, a)
      else if amount mod 1000 \<noteq> 0 then (Some Bid_not_multiple_of_1000, a)
      else (None, a\<lparr> bids := AList.update player_index amount (bids a),
                      sealed_bids_received := sealed_bids_received a + 1 \<rparr>))"

definition sealed_pass :: "Auction \<Rightarrow> int \<Rightarrow> Auction" where
  "sealed_pass a player_index =
     (if player_index \<notin> fst ` set (bids a) \<and> player_index \<noteq> seller_index a
      then a\<lparr> bids := AList.update player_index 0 (bids a),
               sealed_bids_received := sealed_bids_received a + 1 \<rparr>
      else a)"

text \<open>
  Python's \<^verbatim>\<open>max(items, key=lambda x: (x[1], -x[0]))\<close>: the running maximum is
  replaced only by an item whose key is strictly greater, so the first of equal
  keys stays. Keys are pairs, compared lexicographically.
\<close>

definition sealed_key :: "int \<times> int \<Rightarrow> int \<times> int" where
  "sealed_key x = (snd x, - fst x)"

fun max_by_key :: "('a \<Rightarrow> 'k::linorder) \<Rightarrow> 'a \<Rightarrow> 'a list \<Rightarrow> 'a" where
  "max_by_key key m [] = m"
| "max_by_key key m (x # xs) = max_by_key key (if key m < key x then x else m) xs"

definition check_sealed_resolved :: "Auction \<Rightarrow> AuctionResult option \<times> Auction" where
  "check_sealed_resolved a =
     (let expected = int (num_players a) - 1 in
      if sealed_bids_received a \<ge> expected
      then (case bids a of
              [] \<Rightarrow> (Some \<lparr> winner_index = seller_index a, price = 0,
                            result_seller = seller_index a \<rparr>, a\<lparr> state := RESOLVED \<rparr>)
            | b # bs \<Rightarrow>
                if max_by_key id (snd b) (map snd bs) = 0
                then (Some \<lparr> winner_index = seller_index a, price = 0,
                             result_seller = seller_index a \<rparr>, a\<lparr> state := RESOLVED \<rparr>)
                else (let winner = max_by_key sealed_key b bs
                      in (Some \<lparr> winner_index = fst winner, price = snd winner,
                                   result_seller = seller_index a \<rparr>,
                          a\<lparr> state := RESOLVED \<rparr>)))
      else (None, a))"

subsection \<open>Fixed price\<close>

definition set_fixed_price :: "Auction \<Rightarrow> int \<Rightarrow> auction_error option \<times> Auction" where
  "set_fixed_price a p =
     (if state a \<noteq> WAITING_FOR_PRICE then (Some Not_waiting_for_price, a)
      else if p \<le> 0 then (Some Price_must_be_positive, a)
      else if p mod 1000 \<noteq> 0 then (Some Price_not_multiple_of_1000, a)
      else (let a1 = a\<lparr> fixed_price := p, current_bid := p, state := WAITING_FOR_ACCEPT \<rparr>
            in (None, a1\<lparr> current_turn_index := get_next_player a1 (seller_index a1) \<rparr>)))"

definition fixed_price_accept :: "Auction \<Rightarrow> int \<Rightarrow> AuctionResult option \<times> Auction" where
  "fixed_price_accept a player_index =
     (if player_index \<noteq> current_turn_index a then (None, a)
      else (Some \<lparr> winner_index = player_index, price = fixed_price a,
                   result_seller = seller_index a \<rparr>, a\<lparr> state := RESOLVED \<rparr>))"

definition fixed_price_decline :: "Auction \<Rightarrow> int \<Rightarrow> Auction" where
  "fixed_price_decline a player_index =
     (let a1 = (if player_index \<notin> set (passed a)
                then a\<lparr> passed := passed a @ [player_index] \<rparr> else a)
      in a1\<lparr> current_turn_index := get_next_player a1 player_index \<rparr>)"

definition check_fixed_price_resolved :: "Auction \<Rightarrow> AuctionResult option \<times> Auction" where
  "check_fixed_price_resolved a =
     (if state a \<noteq> WAITING_FOR_ACCEPT then (None, a)
      else if current_turn_index a = -1 \<or> current_turn_index a = seller_index a
      then (Some \<lparr> winner_index = seller_index a, price = fixed_price a,
                   result_seller = seller_index a \<rparr>, a\<lparr> state := RESOLVED \<rparr>)
      else (None, a))"

subsection \<open>Dispatch\<close>

text \<open>The action strings that \<^verbatim>\<open>process_action\<close> tests for.\<close>

datatype action = Bid | Pass | Set_Price | Accept | Decline

text \<open>
  \<^verbatim>\<open>process_action\<close> returns the pair (error, result) and mutates the auction; the
  model returns the triple (error, result, auction afterwards). A check is only run
  when the method before it returned no error.
\<close>

definition process_action ::
  "Auction \<Rightarrow> int \<Rightarrow> action \<Rightarrow> int \<Rightarrow> auction_error option \<times> AuctionResult option \<times> Auction" where
  "process_action a player_index act amount =
     (if auction_type a = Open then
        (if act = Bid then
           (case open_bid a player_index amount of
              (Some e, a1) \<Rightarrow> (Some e, None, a1)
            | (None, a1) \<Rightarrow> (None, check_open_resolved a1))
         else if act = Pass then (None, check_open_resolved (open_pass a player_index))
         else (None, None, a))
      else if auction_type a = Once_Around then
        (if act = Bid then
           (case once_around_bid a player_index amount of
              (Some e, a1) \<Rightarrow> (Some e, None, a1)
            | (None, a1) \<Rightarrow> (None, check_once_around_resolved a1))
         else if act = Pass then
           (None, check_once_around_resolved (once_around_pass a player_index))
         else (None, None, a))
      else if auction_type a = Sealed then
        (if act = Bid then
           (case sealed_bid a player_index amount of
              (Some e, a1) \<Rightarrow> (Some e, None, a1)
            | (None, a1) \<Rightarrow> (None, check_sealed_resolved a1))
         else if act = Pass then (None, check_sealed_resolved (sealed_pass a player_index))
         else (None, None, a))
      else if auction_type a = Fixed_Price then
        (if act = Set_Price then
           (case set_fixed_price a amount of
              (Some e, a1) \<Rightarrow> (Some e, None, a1)
            | (None, a1) \<Rightarrow> (None, check_fixed_price_resolved a1))
         else if act = Accept then (None, fixed_price_accept a player_index)
         else if act = Pass \<or> act = Decline then
           (None, check_fixed_price_resolved (fixed_price_decline a player_index))
         else (None, None, a))
      else (None, None, a))"

subsection \<open>Driving an auction\<close>

text \<open>
  The orchestrator keeps one \<^verbatim>\<open>Auction\<close> object and calls \<^verbatim>\<open>process_action\<close> on it
  once per incoming action (player index, action, amount), whatever the previous call
  returned. \<open>auction_run\<close> is the auction after a list of such calls.
\<close>

fun auction_run :: "Auction \<Rightarrow> (int \<times> action \<times> int) list \<Rightarrow> Auction" where
  "auction_run a [] = a"
| "auction_run a (x # rest) =
     auction_run (snd (snd (process_action a (fst x) (fst (snd x)) (snd (snd x))))) rest"

definition example_card :: Card where
  "example_card = \<lparr> card_id = 0, artist = Orange_Tarou, card_type = Open \<rparr>"

text \<open>What every open auction satisfies while players with indices from 0 act on it:
  no recorded bid exceeds the current bid, and the current bidder, once there is one,
  holds the current bid.\<close>

definition open_inv :: "Auction \<Rightarrow> bool" where
  "open_inv a \<longleftrightarrow>
     auction_type a = Open
     \<and> (\<forall>x \<in> set (bids a). snd x \<le> current_bid a \<and> 0 \<le> fst x)
     \<and> (if current_bidder a = -1 then bids a = []
         else (current_bidder a, current_bid a) \<in> set (bids a))"

text \<open>What every sealed auction satisfies while players with valid indices act on it:
  the counter \<^verbatim>\<open>sealed_bids_received\<close> is the number of recorded bids, every bidder is a
  non-seller with one bid, and no bid is negative.\<close>

definition sealed_inv :: "Auction \<Rightarrow> bool" where
  "sealed_inv a \<longleftrightarrow>
     auction_type a = Sealed
     \<and> 0 \<le> seller_index a \<and> seller_index a < int (num_players a)
     \<and> sealed_bids_received a = int (length (bids a))
     \<and> distinct (map fst (bids a))
     \<and> (\<forall>x \<in> set (bids a). 0 \<le> fst x \<and> fst x < int (num_players a)
                              \<and> fst x \<noteq> seller_index a \<and> 0 \<le> snd x)"

definition non_sellers :: "Auction \<Rightarrow> int set" where
  "non_sellers a = {p. 0 \<le> p \<and> p < int (num_players a) \<and> p \<noteq> seller_index a}"

section \<open>Deck and scoring (cards.py)\<close>

definition AUCTION_DISTRIBUTION :: "artist \<Rightarrow> nat list" where
  "AUCTION_DISTRIBUTION a =
     (case a of
        Orange_Tarou \<Rightarrow> [3, 2, 2, 2, 3]
      | Green_Tarou \<Rightarrow> [3, 3, 2, 2, 3]
      | Blue_Tarou \<Rightarrow> [3, 3, 3, 2, 3]
      | Yellow_Tarou \<Rightarrow> [3, 3, 3, 3, 3]
      | Red_Tarou \<Rightarrow> [3, 3, 3, 3, 4])"

text \<open>\<^verbatim>\<open>DEAL_COUNTS\<close> and \<^verbatim>\<open>ROUND_VALUES\<close>: dictionaries with a few keys.\<close>

definition DEAL_COUNTS :: "nat \<Rightarrow> nat list option" where
  "DEAL_COUNTS n =
     (if n = 3 then Some [10, 6, 6, 6]
      else if n = 4 then Some [9, 4, 4, 4]
      else if n = 5 then Some [8, 3, 3, 3]
      else None)"

definition ROUND_VALUES :: "nat \<Rightarrow> int option" where
  "ROUND_VALUES rank =
     (if rank = 1 then Some 30000
      else if rank = 2 then Some 20000
      else if rank = 3 then Some 10000
      else None)"

text \<open>\<^verbatim>\<open>create_deck\<close>: the cards of one artist and one auction type get consecutive ids.\<close>

fun deck_of_counts :: "artist \<Rightarrow> nat \<Rightarrow> (auction_kind \<times> nat) list \<Rightarrow> Card list" where
  "deck_of_counts a next_id [] = []"
| "deck_of_counts a next_id ((ty, n) # rest) =
     map (\<lambda>i. \<lparr> card_id = next_id + i, artist = a, card_type = ty \<rparr>) [0..<n]
     @ deck_of_counts a (next_id + n) rest"

fun deck_of_artists :: "nat \<Rightarrow> artist list \<Rightarrow> Card list" where
  "deck_of_artists next_id [] = []"
| "deck_of_artists next_id (a # rest) =
     deck_of_counts a next_id (zip AUCTION_TYPES (AUCTION_DISTRIBUTION a))
     @ deck_of_artists (next_id + sum_list (AUCTION_DISTRIBUTION a)) rest"

definition create_deck :: "Card list" where
  "create_deck = deck_of_artists 0 ARTISTS"

text \<open>Exceptions that the orchestrator's code can raise.\<close>

datatype py_error = ValueError | IndexError | AttributeError

text \<open>
  \<^verbatim>\<open>deal_cards\<close>. \<open>deal_pass\<close> is the inner loop over the players (a card is taken from
  the front of the deck while there is one), \<open>deal_loop\<close> the outer loop. The deck is
  mutated in place, so the model returns what is left of it as well.
\<close>

fun deal_pass :: "Card list \<Rightarrow> Card list list \<Rightarrow> Card list \<times> Card list list" where
  "deal_pass deck [] = (deck, [])"
| "deal_pass [] (h # hs) = ([], h # hs)"
| "deal_pass (c # deck) (h # hs) =
     (case deal_pass deck hs of (deck', hs') \<Rightarrow> (deck', (h @ [c]) # hs'))"

fun deal_loop :: "nat \<Rightarrow> Card list \<Rightarrow> Card list list \<Rightarrow> Card list \<times> Card list list" where
  "deal_loop 0 deck hands = (deck, hands)"
| "deal_loop (Suc k) deck hands =
     (case deal_pass deck hands of (deck', hands') \<Rightarrow> deal_loop k deck' hands')"

definition deal_cards :: "Card list \<Rightarrow> nat \<Rightarrow> int \<Rightarrow> py_error + (Card list list \<times> Card list)" where
  "deal_cards deck n round_num =
     (case DEAL_COUNTS n of
        None \<Rightarrow> Inl ValueError
      | Some counts \<Rightarrow>
          if round_num < 1 \<or> round_num > MAX_ROUNDS then Inl ValueError
          else (case deal_loop (counts ! nat (round_num - 1)) deck (replicate n []) of
                  (deck', hands) \<Rightarrow> Inr (hands, deck')))"

text \<open>
  \<^verbatim>\<open>calculate_round_values\<close>. The board is a dictionary whose keys are the five
  artists, inserted in the order of \<^verbatim>\<open>ARTISTS\<close>; it is a function here, and
  \<^verbatim>\<open>board.items()\<close> is the list of its pairs in that order. \<open>artist_index\<close> is
  \<^verbatim>\<open>ARTISTS.index\<close>. The sort key is the pair (-count, index), compared
  lexicographically.
\<close>

fun artist_index :: "artist \<Rightarrow> nat" where
  "artist_index Orange_Tarou = 0"
| "artist_index Green_Tarou = 1"
| "artist_index Blue_Tarou = 2"
| "artist_index Yellow_Tarou = 3"
| "artist_index Red_Tarou = 4"

definition board_items :: "(artist \<Rightarrow> int) \<Rightarrow> (artist \<times> int) list" where
  "board_items board = map (\<lambda>a. (a, board a)) ARTISTS"

definition round_key :: "artist \<times> int \<Rightarrow> int \<times> nat" where
  "round_key x = (- snd x, artist_index (fst x))"

definition sorted_artists :: "(artist \<Rightarrow> int) \<Rightarrow> (artist \<times> int) list" where
  "sorted_artists board = sort_key round_key (filter (\<lambda>x. snd x > 0) (board_items board))"

fun award_ranks :: "nat \<Rightarrow> (artist \<times> int) list \<Rightarrow> (artist \<Rightarrow> int) \<Rightarrow> (artist \<Rightarrow> int)" where
  "award_ranks rank [] values = values"
| "award_ranks rank (x # rest) values =
     award_ranks (rank + 1) rest
       (case ROUND_VALUES (rank + 1) of
          Some v \<Rightarrow> values(fst x := v)
        | None \<Rightarrow> values)"

definition calculate_round_values :: "(artist \<Rightarrow> int) \<Rightarrow> (artist \<Rightarrow> int)" where
  "calculate_round_values board = award_ranks 0 (sorted_artists board) (\<lambda>a. 0)"

section \<open>The orchestrator (game.py)\<close>

text \<open>
  \<^verbatim>\<open>Player\<close> without the fields that only serve message delivery (id, name, socket).
  A painting is the dictionary made of the auctioned card; it is the card here.
\<close>

record Player =
  money :: int
  hand :: "Card list"
  paintings :: "Card list"
  is_ai :: bool

definition new_Player :: "bool \<Rightarrow> Player" where
  "new_Player ai = \<lparr> money = STARTING_MONEY, hand = [], paintings = [], is_ai = ai \<rparr>"

text \<open>
  \<^verbatim>\<open>Game\<close>. The field \<^verbatim>\<open>num_players\<close> is \<open>game_num_players\<close>. The last field,
  \<open>total_payouts\<close>, is not in the source: it is a ghost counter that adds up the
  \<^verbatim>\<open>player_earnings\<close> that \<^verbatim>\<open>_end_round\<close> pays, and no operation reads it.
\<close>

record Game =
  players :: "Player list"
  game_num_players :: nat
  deck :: "Card list"
  round_num :: int
  current_turn :: int
  board :: "artist \<Rightarrow> int"
  market :: "artist \<Rightarrow> int"
  current_auction :: "Auction option"
  round_active :: bool
  game_over :: bool
  waiting_for_double :: bool
  double_base_card :: "Card option"
  double_player_index :: int
  total_payouts :: int

definition new_Game :: "Player list \<Rightarrow> Game" where
  "new_Game ps =
     \<lparr> players = ps, game_num_players = length ps, deck = [], round_num = 0,
       current_turn = 0, board = (\<lambda>a. 0), market = (\<lambda>a. 0), current_auction = None,
       round_active = False, game_over = False, waiting_for_double = False,
       double_base_card = None, double_player_index = -1, total_payouts = 0 \<rparr>"

text \<open>Python's list indexing: a negative index counts from the end, an index out of
  range raises \<^verbatim>\<open>IndexError\<close> (\<open>None\<close> here).\<close>

definition list_index :: "'a list \<Rightarrow> int \<Rightarrow> nat option" where
  "list_index xs i =
     (if 0 \<le> i \<and> i < int (length xs) then Some (nat i)
      else if - int (length xs) \<le> i \<and> i < 0 then Some (nat (int (length xs) + i))
      else None)"

text \<open>\<^verbatim>\<open>xs.pop(i)\<close> for an index in range.\<close>

definition pop_at :: "nat \<Rightarrow> 'a list \<Rightarrow> 'a list" where
  "pop_at i xs = take i xs @ drop (Suc i) xs"

text \<open>
  \<^verbatim>\<open>start\<close>: the shuffled deck is a parameter. Sending messages changes no state and is
  left out throughout; so is the driving of automated players, which acts on the game
  only by calling the entry points below.
\<close>

definition give_hands :: "(Card list \<Rightarrow> Card list \<Rightarrow> Card list) \<Rightarrow> Card list list \<Rightarrow> Player list \<Rightarrow> Player list" where
  "give_hands f hands ps = map (\<lambda>(i, p). p\<lparr> hand := f (hand p) (hands ! i) \<rparr>) (enumerate 0 ps)"

definition start :: "Game \<Rightarrow> Card list \<Rightarrow> py_error + Game" where
  "start g shuffled =
     (let g1 = g\<lparr> deck := shuffled, round_num := 1, current_turn := 0, round_active := True \<rparr>
      in case deal_cards (deck g1) (game_num_players g1) (round_num g1) of
           Inl e \<Rightarrow> Inl e
         | Inr (hands, deck') \<Rightarrow>
             if length hands < length (players g1) then Inl IndexError
             else Inr (g1\<lparr> deck := deck',
                            players := give_hands (\<lambda>old new. new) hands (players g1) \<rparr>))"

definition check_round_end :: "Game \<Rightarrow> artist \<Rightarrow> bool" where
  "check_round_end g a \<longleftrightarrow> board g a \<ge> ROUND_END_CARD_COUNT"

text \<open>\<^verbatim>\<open>_end_game\<close> sets the flag; the winner it computes is only sent out.\<close>

definition end_game :: "Game \<Rightarrow> Game" where
  "end_game g = g\<lparr> game_over := True \<rparr>"

definition player_earnings :: "(artist \<Rightarrow> int) \<Rightarrow> Player \<Rightarrow> int" where
  "player_earnings mk p = sum_list (map (\<lambda>painting. mk (artist painting)) (paintings p))"

definition end_round :: "Game \<Rightarrow> py_error + Game" where
  "end_round g =
     (let g1 = g\<lparr> round_active := False \<rparr>;
          round_values = calculate_round_values (board g1);
          mk = (\<lambda>a. market g1 a + round_values a);
          ps = map (\<lambda>p. p\<lparr> money := money p + player_earnings mk p, paintings := [] \<rparr>)
                 (players g1);
          g2 = g1\<lparr> market := mk, players := ps,
                   total_payouts :=
                     total_payouts g1 + sum_list (map (player_earnings mk) (players g1)),
                   round_num := round_num g1 + 1 \<rparr>
      in if round_num g2 > MAX_ROUNDS then Inr (end_game g2)
         else (let g3 = g2\<lparr> board := (\<lambda>a. 0) \<rparr>
               in case deal_cards (deck g3) (game_num_players g3) (round_num g3) of
                    Inl e \<Rightarrow> Inl e
                  | Inr (new_hands, deck') \<Rightarrow>
                      if length new_hands < length (players g3) then Inl IndexError
                      else Inr (g3\<lparr> deck := deck',
                                     players := give_hands (\<lambda>old new. old @ new) new_hands
                                                  (players g3),
                                     round_active := True, current_turn := 0 \<rparr>)))"

definition advance_turn :: "Game \<Rightarrow> py_error + Game" where
  "advance_turn g =
     (if \<not> list_ex (\<lambda>p. length (hand p) > 0) (players g) then end_round g
      else (case List.find (\<lambda>next_idx. length (hand (players g ! nat next_idx)) > 0)
                   (map (\<lambda>i. (current_turn g + int i) mod int (game_num_players g))
                      [1..<game_num_players g + 1]) of
              Some next_idx \<Rightarrow> Inr (g\<lparr> current_turn := next_idx \<rparr>)
            | None \<Rightarrow> Inr g))"

definition start_auction :: "Game \<Rightarrow> int \<Rightarrow> Card \<Rightarrow> auction_kind \<Rightarrow> Card option \<Rightarrow> Game" where
  "start_auction g seller c ty dc =
     (let a = new_Auction ty seller c (game_num_players g) dc
      in g\<lparr> current_auction := Some (if ty = Once_Around then start_once_around a else a) \<rparr>)"

text \<open>
  \<^verbatim>\<open>_resolve_auction\<close> in its two parts: \<open>settle_auction\<close> moves the money and the
  painting and discards the auction; \<open>resolve_auction\<close> then advances the turn.
\<close>

definition settle_auction :: "Game \<Rightarrow> AuctionResult \<Rightarrow> py_error + Game" where
  "settle_auction g result =
     (case (list_index (players g) (winner_index result),
            list_index (players g) (result_seller result)) of
        (Some w, Some s) \<Rightarrow>
          (case current_auction g of
             None \<Rightarrow> Inl AttributeError
           | Some a \<Rightarrow>
              (let ps0 = players g;
                   ps1 = (if winner_index result \<noteq> result_seller result
                          then ps0[w := (ps0 ! w)\<lparr> money := money (ps0 ! w) - price result \<rparr>]
                          else ps0);
                   ps2 = (if winner_index result \<noteq> result_seller result
                          then ps1[s := (ps1 ! s)\<lparr> money := money (ps1 ! s) + price result \<rparr>]
                          else ps1);
                   ps3 = ps2[w := (ps2 ! w)\<lparr> paintings := paintings (ps2 ! w) @ [auction_card a] \<rparr>]
               in Inr (g\<lparr> players := ps3, current_auction := None \<rparr>)))
      | _ \<Rightarrow> Inl IndexError)"

definition resolve_auction :: "Game \<Rightarrow> AuctionResult \<Rightarrow> py_error + Game" where
  "resolve_auction g result =
     (case settle_auction g result of
        Inl e \<Rightarrow> Inl e
      | Inr g1 \<Rightarrow> advance_turn g1)"

definition inc_board :: "Game \<Rightarrow> artist \<Rightarrow> Game" where
  "inc_board g a = g\<lparr> board := (board g)(a := board g a + 1) \<rparr>"

definition set_hand :: "Game \<Rightarrow> nat \<Rightarrow> Card list \<Rightarrow> Game" where
  "set_hand g pos h = g\<lparr> players := (players g)[pos := (players g ! pos)\<lparr> hand := h \<rparr>] \<rparr>"

text \<open>\<^verbatim>\<open>_play_single_card\<close>; \<open>pos\<close> is the position of the player in the list.\<close>

definition play_single_card :: "Game \<Rightarrow> int \<Rightarrow> nat \<Rightarrow> Card \<Rightarrow> int \<Rightarrow> py_error + Game" where
  "play_single_card g player_index pos c card_index =
     (let g1 = set_hand g pos (pop_at (nat card_index) (hand (players g ! pos)));
          g2 = inc_board g1 (artist c)
      in if check_round_end g2 (artist c) then end_round g2
         else Inr (start_auction g2 player_index c (card_type c) None))"

definition effective_type :: "Card \<Rightarrow> auction_kind" where
  "effective_type second_card =
     (if card_type second_card = Double then Open else card_type second_card)"

definition play_double ::
  "Game \<Rightarrow> int \<Rightarrow> nat \<Rightarrow> Card \<Rightarrow> int \<Rightarrow> Card \<Rightarrow> int \<Rightarrow> py_error + Game" where
  "play_double g player_index pos card1 idx1 card2 idx2 =
     (let h = hand (players g ! pos);
          g1 = set_hand g pos (pop_at (nat (min idx1 idx2)) (pop_at (nat (max idx1 idx2)) h));
          g2 = inc_board g1 (artist card1)
      in if check_round_end g2 (artist card1) then end_round g2
         else (let g3 = inc_board g2 (artist card1)
               in if check_round_end g3 (artist card1) then end_round g3
                  else Inr (start_auction g3 player_index card1 (effective_type card2)
                              (Some card2))))"

subsection \<open>Entry points\<close>

text \<open>
  The error messages that the entry points send to the acting player. An entry point
  returns the message it sent, if any, with the game afterwards, or the exception it
  raised.
\<close>

datatype message =
  Game_not_active
  | Auction_in_progress
  | Not_your_turn_to_play
  | Invalid_card_index
  | Invalid_double_card_index
  | Double_card_must_be_same_artist
  | Not_enough_money
  | Auction_error auction_error

definition no_message :: "py_error + Game \<Rightarrow> py_error + (message option \<times> Game)" where
  "no_message r = (case r of Inl e \<Rightarrow> Inl e | Inr g \<Rightarrow> Inr (None, g))"

definition has_match :: "Card list \<Rightarrow> Card \<Rightarrow> int \<Rightarrow> bool" where
  "has_match h c card_index =
     list_ex (\<lambda>(i, c'). artist c' = artist c \<and> int i \<noteq> card_index) (enumerate 0 h)"

definition handle_play_card ::
  "Game \<Rightarrow> int \<Rightarrow> int \<Rightarrow> int \<Rightarrow> py_error + (message option \<times> Game)" where
  "handle_play_card g player_index card_index double_card_index =
     (case list_index (players g) player_index of
        None \<Rightarrow> Inl IndexError
      | Some pos \<Rightarrow>
         (let player = players g ! pos in
          if game_over g \<or> \<not> round_active g then Inr (Some Game_not_active, g)
          else if current_auction g \<noteq> None then Inr (Some Auction_in_progress, g)
          else if player_index \<noteq> current_turn g then Inr (Some Not_your_turn_to_play, g)
          else if card_index < 0 \<or> card_index \<ge> int (length (hand player))
          then Inr (Some Invalid_card_index, g)
          else (let c = hand player ! nat card_index in
            if card_type c = Double then
              (if double_card_index \<ge> 0 then
                 (if double_card_index \<ge> int (length (hand player))
                     \<or> double_card_index = card_index
                  then Inr (Some Invalid_double_card_index, g)
                  else (let second_card = hand player ! nat double_card_index in
                    if artist second_card \<noteq> artist c
                    then Inr (Some Double_card_must_be_same_artist, g)
                    else no_message (play_double g player_index pos c card_index
                                       second_card double_card_index)))
               else if has_match (hand player) c card_index then
                 Inr (None,
                      set_hand (g\<lparr> waiting_for_double := True, double_base_card := Some c,
                                    double_player_index := player_index \<rparr>)
                        pos (pop_at (nat card_index) (hand player)))
               else no_message (play_single_card g player_index pos (c\<lparr> card_type := Open \<rparr>)
                                  card_index))
            else no_message (play_single_card g player_index pos c card_index))))"

text \<open>The last part of \<^verbatim>\<open>handle_double_response\<close>: the base card alone, as an open
  auction.\<close>

definition play_base_card_alone :: "Game \<Rightarrow> int \<Rightarrow> Card \<Rightarrow> py_error + Game" where
  "play_base_card_alone g player_index base_card =
     (let g1 = inc_board g (artist base_card)
      in if check_round_end g1 (artist base_card) then end_round g1
         else Inr (start_auction g1 player_index base_card Open None))"

definition handle_double_response ::
  "Game \<Rightarrow> int \<Rightarrow> int \<Rightarrow> py_error + (message option \<times> Game)" where
  "handle_double_response g player_index second_card_index =
     (if \<not> waiting_for_double g \<or> player_index \<noteq> double_player_index g then Inr (None, g)
      else (case list_index (players g) player_index of
        None \<Rightarrow> Inl IndexError
      | Some pos \<Rightarrow>
         (case double_base_card g of
            None \<Rightarrow> Inl AttributeError
          | Some base_card \<Rightarrow>
             (let player = players g ! pos;
                  g0 = g\<lparr> waiting_for_double := False, double_base_card := None,
                          double_player_index := -1 \<rparr>
              in if second_card_index \<ge> 0 \<and> second_card_index < int (length (hand player))
                 then (let second_card = hand player ! nat second_card_index in
                   if artist second_card = artist base_card
                   then (let g1 = set_hand g0 pos (pop_at (nat second_card_index) (hand player));
                             g2 = inc_board g1 (artist base_card)
                         in if check_round_end g2 (artist base_card)
                            then no_message (end_round g2)
                            else (let g3 = inc_board g2 (artist base_card)
                                  in if check_round_end g3 (artist base_card)
                                     then no_message (end_round g3)
                                     else Inr (None,
                                            start_auction g3 player_index base_card
                                              (effective_type second_card) (Some second_card))))
                   else no_message (play_base_card_alone g0 player_index base_card))
                 else no_message (play_base_card_alone g0 player_index base_card)))))"

text \<open>What \<^verbatim>\<open>handle_bid\<close>, \<^verbatim>\<open>handle_pass\<close>, \<^verbatim>\<open>handle_accept\<close> and
  \<^verbatim>\<open>handle_set_price\<close> do with the answer of \<^verbatim>\<open>process_action\<close>, which has mutated the
  auction in place.\<close>

definition after_action ::
  "Game \<Rightarrow> auction_error option \<times> AuctionResult option \<times> Auction
     \<Rightarrow> py_error + (message option \<times> Game)" where
  "after_action g answer =
     (case answer of (err, result, a') \<Rightarrow>
        (let g1 = g\<lparr> current_auction := Some a' \<rparr> in
         case err of
           Some e \<Rightarrow> Inr (Some (Auction_error e), g1)
         | None \<Rightarrow>
            (case result of
               Some r \<Rightarrow> no_message (resolve_auction g1 r)
             | None \<Rightarrow> Inr (None, g1))))"

definition handle_bid :: "Game \<Rightarrow> int \<Rightarrow> int \<Rightarrow> py_error + (message option \<times> Game)" where
  "handle_bid g player_index amount =
     (case current_auction g of
        None \<Rightarrow> Inr (None, g)
      | Some a \<Rightarrow>
         (case list_index (players g) player_index of
            None \<Rightarrow> Inl IndexError
          | Some pos \<Rightarrow>
             if amount > money (players g ! pos) then Inr (Some Not_enough_money, g)
             else after_action g (process_action a player_index Bid amount)))"

definition handle_pass :: "Game \<Rightarrow> int \<Rightarrow> py_error + (message option \<times> Game)" where
  "handle_pass g player_index =
     (case current_auction g of
        None \<Rightarrow> Inr (None, g)
      | Some a \<Rightarrow> after_action g (process_action a player_index Pass 0))"

definition handle_accept :: "Game \<Rightarrow> int \<Rightarrow> py_error + (message option \<times> Game)" where
  "handle_accept g player_index =
     (case current_auction g of
        None \<Rightarrow> Inr (None, g)
      | Some a \<Rightarrow>
         if auction_type a \<noteq> Fixed_Price then Inr (None, g)
         else (case list_index (players g) player_index of
            None \<Rightarrow> Inl IndexError
          | Some pos \<Rightarrow>
             if fixed_price a > money (players g ! pos) then Inr (Some Not_enough_money, g)
             else after_action g (process_action a player_index Accept 0)))"

definition handle_set_price :: "Game \<Rightarrow> int \<Rightarrow> int \<Rightarrow> py_error + (message option \<times> Game)" where
  "handle_set_price g player_index p =
     (case current_auction g of
        None \<Rightarrow> Inr (None, g)
      | Some a \<Rightarrow>
         if auction_type a \<noteq> Fixed_Price then Inr (None, g)
         else if player_index \<noteq> seller_index a then Inr (None, g)
         else after_action g (process_action a player_index Set_Price p))"

subsection \<open>Runs of the game\<close>

text \<open>
  An incoming action message, as the lobby relays it: \<^verbatim>\<open>play_card\<close> with the card index
  and the index of the second card, \<^verbatim>\<open>double_response\<close>, \<^verbatim>\<open>bid\<close>, \<^verbatim>\<open>pass\<close>,
  \<^verbatim>\<open>accept\<close> and \<^verbatim>\<open>set_price\<close>. The lobby calls the entry point with the position of
  the sender in the player list.
\<close>

datatype game_action =
  Play_Card int int
  | Double_Response int
  | Bid_Amount int
  | Pass_Auction
  | Accept_Price
  | Set_Price_Amount int

fun handle :: "Game \<Rightarrow> int \<Rightarrow> game_action \<Rightarrow> py_error + (message option \<times> Game)" where
  "handle g p (Play_Card i j) = handle_play_card g p i j"
| "handle g p (Double_Response i) = handle_double_response g p i"
| "handle g p (Bid_Amount amount) = handle_bid g p amount"
| "handle g p Pass_Auction = handle_pass g p"
| "handle g p Accept_Price = handle_accept g p"
| "handle g p (Set_Price_Amount amount) = handle_set_price g p amount"

text \<open>The states of a game: started with some shuffle of the deck for players created by
  the lobby, then any actions of its players, each entry point running to its end.\<close>

inductive reachable :: "Game \<Rightarrow> bool" where
  started:
    "mset shuffled = mset create_deck \<Longrightarrow>
     start (new_Game (map new_Player ais)) shuffled = Inr g \<Longrightarrow> reachable g"
| acted:
    "reachable g \<Longrightarrow> 0 \<le> p \<Longrightarrow> p < int (length (players g)) \<Longrightarrow>
     handle g p act = Inr (m, g') \<Longrightarrow> reachable g'"

fun game_run :: "Game \<Rightarrow> (int \<times> game_action) list \<Rightarrow> py_error + Game" where
  "game_run g [] = Inr g"
| "game_run g (x # rest) =
     (case handle g (fst x) (snd x) of
        Inl e \<Rightarrow> Inl e
      | Inr (m, g') \<Rightarrow> game_run g' rest)"

definition total_money :: "Game \<Rightarrow> int" where
  "total_money g = sum_list (map money (players g))"

text \<open>What an entry point keeps: the number of players, and the difference between the
  money of all players and the round-end payouts so far.\<close>

definition preserved :: "Game \<Rightarrow> Game \<Rightarrow> bool" where
  "preserved g g' \<longleftrightarrow>
     length (players g') = length (players g)
     \<and> total_money g' - total_payouts g' = total_money g - total_payouts g"

subsection \<open>A sample game\<close>

text \<open>
  Three human players, and the deck in the order in which \<^verbatim>\<open>create_deck\<close> builds it (one
  of the orders a shuffle can give). \<open>auction_and_passes p i\<close> is player \<open>p\<close> playing the
  card at index \<open>i\<close> of the hand, followed by a pass of each of the two other players.
  In \<open>first_round\<close> the players put five Orange cards on the board, which ends round 1.
\<close>

definition example_game :: Game where
  "example_game = projr (start (new_Game (map new_Player [False, False, False])) create_deck)"

definition auction_and_passes :: "int \<Rightarrow> int \<Rightarrow> (int \<times> game_action) list" where
  "auction_and_passes p i =
     [(p, Play_Card i (-1)), ((p + 1) mod 3, Pass_Auction), ((p + 2) mod 3, Pass_Auction)]"

definition first_round :: "(int \<times> game_action) list" where
  "first_round =
     auction_and_passes 0 0 @ auction_and_passes 1 0 @ auction_and_passes 2 0
     @ auction_and_passes 0 0 @ [(1, Play_Card 0 (-1))]"

text \<open>
  \<open>stale_double_trace\<close>: rounds 1 to 3 end with the fifth Orange, Green and Blue card. In
  round 4 four Red cards are auctioned; then player 1, whose turn it is, plays the Red
  double card (index 15) without naming a second card, plays the Red card at index 12
  while the double request is still open, and at last answers the double request.
\<close>

definition stale_double_trace :: "(int \<times> game_action) list" where
  "stale_double_trace =
     first_round
     @ auction_and_passes 0 2 @ auction_and_passes 1 2 @ auction_and_passes 2 3
     @ auction_and_passes 0 2 @ [(1, Play_Card 2 (-1))]
     @ auction_and_passes 0 5 @ auction_and_passes 1 4 @ auction_and_passes 2 6
     @ auction_and_passes 0 5 @ [(1, Play_Card 4 (-1))]
     @ auction_and_passes 0 12 @ auction_and_passes 1 12 @ auction_and_passes 2 15
     @ auction_and_passes 0 12
     @ [(1, Play_Card 15 (-1)), (1, Play_Card 12 (-1)), (1, Double_Response (-1))]"

text \<open>
  More sample runs. In \<open>example_game4\<close>, four players with the same deck, player 0 plays the
  Orange fixed-price card, asks 4000, and players 1 and 2 decline. In
  \<open>pending_double_low\<close> player 0 opens round 1 with the Orange double card and names no
  second card; in \<open>pending_double_at_four\<close> player 1 does so when four Orange cards are on
  the board.
\<close>

definition example_game4 :: Game where
  "example_game4 =
     projr (start (new_Game (map new_Player [False, False, False, False])) create_deck)"

definition fixed_price_declines :: "(int \<times> game_action) list" where
  "fixed_price_declines =
     [(0, Play_Card 2 (-1)), (0, Set_Price_Amount 4000), (1, Pass_Auction), (2, Pass_Auction)]"

definition pending_double_low :: "(int \<times> game_action) list" where
  "pending_double_low = [(0, Play_Card 3 (-1))]"

definition pending_double_at_four :: "(int \<times> game_action) list" where
  "pending_double_at_four =
     auction_and_passes 0 0 @ auction_and_passes 1 0 @ auction_and_passes 2 0
     @ auction_and_passes 0 0 @ [(1, Play_Card 2 (-1))]"

section \<open>Properties of the open auction\<close>

lemma set_update_subset: "set (AList.update k v al) \<subseteq> insert (k, v) (set al)"
  by (induction al) auto

lemma update_mem: "(k, v) \<in> set (AList.update k v al)"
  by (induction al) auto

lemma open_inv_new: "open_inv (new_Auction Open s c n dc)"
  by (simp add: open_inv_def new_Auction_def)

lemma open_inv_step:
  assumes "open_inv a" and "0 \<le> p"
  shows "open_inv (snd (snd (process_action a p act amt)))"
proof -
  have ty: "auction_type a = Open" using assms by (simp add: open_inv_def)
  have chk: "\<And>b. open_inv b \<Longrightarrow> open_inv (snd (check_open_resolved b))"
    by (simp add: check_open_resolved_def open_inv_def Let_def)
  have pas: "open_inv (open_pass a p)"
    using assms by (simp add: open_pass_def open_inv_def)
  have bid: "open_inv (snd (open_bid a p amt))"
  proof (cases "fst (open_bid a p amt)")
    case (Some e)
    then have "snd (open_bid a p amt) = a"
      by (auto simp: open_bid_def split: if_splits)
    then show ?thesis using assms by simp
  next
    case None
    then have ok: "current_bid a < amt" "p \<noteq> seller_index a"
      and eq: "snd (open_bid a p amt) = a\<lparr> current_bid := amt, current_bidder := p,
                      bids := AList.update p amt (bids a) \<rparr>"
      by (auto simp: open_bid_def split: if_splits)
    have "\<forall>x \<in> set (AList.update p amt (bids a)). snd x \<le> amt \<and> 0 \<le> fst x"
      using set_update_subset[of p amt "bids a"] assms ok
      by (fastforce simp: open_inv_def)
    then show ?thesis
      using assms ok by (auto simp: eq open_inv_def update_mem)
  qed
  show ?thesis
  proof (cases act)
    case Bid
    then show ?thesis
      using ty chk[OF bid] bid
      by (cases "open_bid a p amt"; cases "fst (open_bid a p amt)")
         (simp_all add: process_action_def)
  next
    case Pass
    then show ?thesis
      using ty chk[OF pas] by (simp add: process_action_def)
  qed (use ty assms in \<open>simp_all add: process_action_def\<close>)
qed

lemma open_inv_run:
  "open_inv a \<Longrightarrow> \<forall>x \<in> set acts. 0 \<le> fst x \<Longrightarrow> open_inv (auction_run a acts)"
  by (induction acts arbitrary: a) (auto simp: open_inv_step)

lemma check_open_resolved_iff:
  "fst (check_open_resolved a) \<noteq> None \<longleftrightarrow>
     open_active a = [] \<or> (open_active a = [current_bidder a] \<and> 0 < current_bid a)"
  by (cases "open_active a"; cases "tl (open_active a)")
     (auto simp: check_open_resolved_def Let_def)

lemma check_open_resolved_result:
  "fst (check_open_resolved a) = Some r \<Longrightarrow>
     r = (if current_bidder a = -1
          then \<lparr> winner_index = seller_index a, price = 0, result_seller = seller_index a \<rparr>
          else \<lparr> winner_index = current_bidder a, price = current_bid a,
                 result_seller = seller_index a \<rparr>)"
  by (auto simp: check_open_resolved_def Let_def split: if_splits)

text \<open>
  C4 (as amended). Let \<open>a\<close> be an open auction after any list of actions by players with
  indices from 0. The auction resolves exactly when no eligible non-seller is left, or
  exactly one is left and that player holds the current bid, which is positive: one
  eligible non-seller who does not hold the current bid keeps the auction open. When
  it resolves and no bid was ever placed, the seller receives the card at price 0;
  otherwise the winner is the current bidder at the current bid, which is a recorded
  bid and the highest of all recorded bids.
\<close>

theorem open_resolution:
  assumes "\<forall>x \<in> set acts. 0 \<le> fst x"
    and "a = auction_run (new_Auction Open seller c n dc) acts"
  shows "(fst (check_open_resolved a) \<noteq> None \<longleftrightarrow>
            open_active a = [] \<or> (open_active a = [current_bidder a] \<and> 0 < current_bid a))
       \<and> (bids a = [] \<longrightarrow>
            fst (check_open_resolved a) = None
            \<or> fst (check_open_resolved a)
                = Some \<lparr> winner_index = seller_index a, price = 0,
                         result_seller = seller_index a \<rparr>)
       \<and> (bids a \<noteq> [] \<longrightarrow>
            (fst (check_open_resolved a) = None
             \<or> fst (check_open_resolved a)
                 = Some \<lparr> winner_index = current_bidder a, price = current_bid a,
                          result_seller = seller_index a \<rparr>)
            \<and> (current_bidder a, current_bid a) \<in> set (bids a)
            \<and> (\<forall>x \<in> set (bids a). snd x \<le> current_bid a))"
proof -
  have inv: "open_inv a"
    using assms open_inv_run[OF open_inv_new] by simp
  have r: "fst (check_open_resolved a) = None \<or>
           fst (check_open_resolved a) = Some (if current_bidder a = -1
          then \<lparr> winner_index = seller_index a, price = 0, result_seller = seller_index a \<rparr>
          else \<lparr> winner_index = current_bidder a, price = current_bid a,
                 result_seller = seller_index a \<rparr>)"
    using check_open_resolved_result[of a] by (cases "fst (check_open_resolved a)") auto
  have e: "bids a = [] \<longleftrightarrow> current_bidder a = -1"
    using inv by (auto simp: open_inv_def split: if_splits)
  show ?thesis
    using inv r e check_open_resolved_iff[of a]
    by (auto simp: open_inv_def split: if_splits)
qed

theorem open_resolution_witness:
  "fst (snd (process_action
        (auction_run (new_Auction Open 0 example_card 3 None) [(1, Bid, 5000), (2, Bid, 7000)])
        1 Pass 0))
     = Some \<lparr> winner_index = 2, price = 7000, result_seller = 0 \<rparr>
   \<and> fst (check_open_resolved
        (auction_run (new_Auction Open 0 example_card 3 None)
           [(1, Bid, 5000), (2, Bid, 7000), (1, Pass, 0)]))
     = Some \<lparr> winner_index = 2, price = 7000, result_seller = 0 \<rparr>
   \<and> open_active (auction_run (new_Auction Open 0 example_card 3 None)
           [(1, Bid, 5000), (2, Bid, 7000), (1, Pass, 0)]) = [2]
   \<and> bids (auction_run (new_Auction Open 0 example_card 3 None)
           [(1, Bid, 5000), (2, Bid, 7000), (1, Pass, 0)]) = [(1, 5000), (2, 7000)]"
  using open_resolution[of "[(1, Bid, 5000), (2, Bid, 7000), (1, Pass, 0)]"
      "auction_run (new_Auction Open 0 example_card 3 None)
           [(1, Bid, 5000), (2, Bid, 7000), (1, Pass, 0)]" 0 example_card 3 None]
  by (simp add: new_Auction_def process_action_def open_bid_def open_pass_def
      check_open_resolved_def open_active_def example_card_def Let_def upt_conv_Cons)

text \<open>
  With three players and seller 0, after player 1 passes and nobody has bid, exactly one
  eligible non-seller (player 2) is left, and the auction is not resolved.
\<close>

theorem open_one_left_not_resolved:
  "open_active (snd (snd (process_action (new_Auction Open 0 example_card 3 None) 1 Pass 0))) = [2]
   \<and> fst (snd (process_action (new_Auction Open 0 example_card 3 None) 1 Pass 0)) = None"
  by (simp add: new_Auction_def process_action_def open_pass_def
      check_open_resolved_def open_active_def example_card_def Let_def upt_conv_Cons)

lemma check_open_resolved_snd:
  "snd (check_open_resolved b) = b \<or> snd (check_open_resolved b) = b\<lparr> state := RESOLVED \<rparr>"
  by (simp add: check_open_resolved_def Let_def)

lemma open_active_state [simp]: "open_active (b\<lparr> state := s \<rparr>) = open_active b"
  by (simp add: open_active_def)

text \<open>
  C6 (as amended). In an open auction a pass is never refused. It puts the player on the
  passed list, which takes the player out of the list of active bidders that decides when
  the auction resolves, and it leaves the current bid, the current bidder and the recorded
  bids as they were: a pass does not withdraw a bid. When the pass resolves the auction,
  the winner is the holder of the current bid at that bid, whether or not that player has
  passed, or the seller at price 0 when nobody bid.
\<close>

theorem open_pass_effect:
  assumes "auction_type a = Open"
    and "process_action a p Pass amt = (e, r, a')"
  shows "e = None
       \<and> p \<in> set (passed a') \<and> p \<notin> set (open_active a')
       \<and> current_bid a' = current_bid a \<and> current_bidder a' = current_bidder a
       \<and> bids a' = bids a
       \<and> (\<forall>res. r = Some res \<longrightarrow>
             res = (if current_bidder a = -1
                    then \<lparr> winner_index = seller_index a, price = 0,
                            result_seller = seller_index a \<rparr>
                    else \<lparr> winner_index = current_bidder a, price = current_bid a,
                            result_seller = seller_index a \<rparr>))"
proof -
  let ?b = "open_pass a p"
  have pa: "process_action a p Pass amt = (None, check_open_resolved ?b)"
    using assms(1) by (simp add: process_action_def)
  then have e: "e = None" and r: "r = fst (check_open_resolved ?b)"
    and a': "a' = snd (check_open_resolved ?b)"
    using assms(2) by (auto simp: prod_eq_iff)
  have b: "p \<in> set (passed ?b)" "p \<notin> set (open_active ?b)"
    "current_bid ?b = current_bid a" "current_bidder ?b = current_bidder a" "bids ?b = bids a"
    "seller_index ?b = seller_index a"
    by (auto simp: open_pass_def open_active_def)
  have keep: "p \<in> set (passed a') \<and> p \<notin> set (open_active a')
       \<and> current_bid a' = current_bid a \<and> current_bidder a' = current_bidder a
       \<and> bids a' = bids a"
    using check_open_resolved_snd[of ?b] b unfolding a' by (elim disjE) simp_all
  have res: "\<forall>res. r = Some res \<longrightarrow>
             res = (if current_bidder a = -1
                    then \<lparr> winner_index = seller_index a, price = 0,
                            result_seller = seller_index a \<rparr>
                    else \<lparr> winner_index = current_bidder a, price = current_bid a,
                            result_seller = seller_index a \<rparr>)"
    using check_open_resolved_result[of ?b] b r by auto
  show ?thesis using e keep res by blast
qed

theorem open_pass_effect_witness:
  "process_action (new_Auction Open 0 example_card 3 None) 1 Pass 0
     = (None, None, (new_Auction Open 0 example_card 3 None)\<lparr> passed := [1] \<rparr>)
   \<and> open_active ((new_Auction Open 0 example_card 3 None)\<lparr> passed := [1] \<rparr>) = [2]"
  using open_pass_effect[of "new_Auction Open 0 example_card 3 None" 1 0 None None
      "(new_Auction Open 0 example_card 3 None)\<lparr> passed := [1] \<rparr>"]
  by (simp add: new_Auction_def process_action_def open_pass_def
      check_open_resolved_def open_active_def example_card_def Let_def upt_conv_Cons)

text \<open>
  Three players, seller 0. A bid of 5000 by player 1 after player 1 has passed is accepted;
  and when player 1 bids 5000, then passes, and player 2 passes, the auction resolves with
  player 1, who has passed, as the winner at 5000.
\<close>

theorem open_passed_player_bids_and_wins:
  "fst (process_action (auction_run (new_Auction Open 0 example_card 3 None) [(1, Pass, 0)])
          1 Bid 5000) = None
   \<and> current_bidder (auction_run (new_Auction Open 0 example_card 3 None)
          [(1, Pass, 0), (1, Bid, 5000)]) = 1
   \<and> passed (auction_run (new_Auction Open 0 example_card 3 None)
          [(1, Bid, 5000), (1, Pass, 0)]) = [1]
   \<and> fst (snd (process_action (auction_run (new_Auction Open 0 example_card 3 None)
          [(1, Bid, 5000), (1, Pass, 0)]) 2 Pass 0))
       = Some \<lparr> winner_index = 1, price = 5000, result_seller = 0 \<rparr>"
  by (simp add: new_Auction_def process_action_def open_bid_def open_pass_def
      check_open_resolved_def open_active_def example_card_def Let_def upt_conv_Cons)


section \<open>Properties of the sealed auction\<close>

lemma update_fresh: "k \<notin> fst ` set al \<Longrightarrow> AList.update k v al = al @ [(k, v)]"
  by (induction al) auto

lemma sealed_inv_new:
  "0 \<le> s \<Longrightarrow> s < int n \<Longrightarrow> sealed_inv (new_Auction Sealed s c n dc)"
  by (simp add: sealed_inv_def new_Auction_def)

lemma sealed_inv_append:
  assumes "sealed_inv a" "0 \<le> p" "p < int (num_players a)" "p \<noteq> seller_index a"
    "p \<notin> fst ` set (bids a)" "0 \<le> v"
  shows "sealed_inv (a\<lparr> bids := AList.update p v (bids a),
                         sealed_bids_received := sealed_bids_received a + 1 \<rparr>)"
  using assms by (auto simp: sealed_inv_def update_fresh)

lemma check_sealed_resolved_snd:
  "snd (check_sealed_resolved b) = b \<or> snd (check_sealed_resolved b) = b\<lparr> state := RESOLVED \<rparr>"
  by (simp add: check_sealed_resolved_def Let_def split: list.splits)

lemma sealed_inv_check: "sealed_inv b \<Longrightarrow> sealed_inv (snd (check_sealed_resolved b))"
  using check_sealed_resolved_snd[of b] by (elim disjE) (simp_all add: sealed_inv_def)


lemma sealed_inv_step:
  assumes "sealed_inv a" and "0 \<le> p" and "p < int (num_players a)"
  shows "sealed_inv (snd (snd (process_action a p act amt)))"
proof -
  have ty: "auction_type a = Sealed" using assms by (simp add: sealed_inv_def)
  have pas: "sealed_inv (sealed_pass a p)"
    using assms sealed_inv_append[of a p 0] by (simp add: sealed_pass_def)
  have bid: "sealed_inv (snd (sealed_bid a p amt))"
    using assms sealed_inv_append[of a p amt] by (simp add: sealed_bid_def)
  show ?thesis
  proof (cases act)
    case Bid
    then show ?thesis
      using ty sealed_inv_check[OF bid] bid
      by (cases "sealed_bid a p amt"; cases "fst (sealed_bid a p amt)")
         (simp_all add: process_action_def)
  next
    case Pass
    then show ?thesis
      using ty sealed_inv_check[OF pas] by (simp add: process_action_def)
  qed (use ty assms in \<open>simp_all add: process_action_def\<close>)
qed

lemma sealed_step_num_players:
  assumes "auction_type a = Sealed"
  shows "num_players (snd (snd (process_action a p act amt))) = num_players a
       \<and> seller_index (snd (snd (process_action a p act amt))) = seller_index a"
proof -
  have chk: "\<And>b. num_players (snd (check_sealed_resolved b)) = num_players b
                 \<and> seller_index (snd (check_sealed_resolved b)) = seller_index b"
    subgoal for b using check_sealed_resolved_snd[of b] by (elim disjE) simp_all
    done
  have bid: "num_players (snd (sealed_bid a p amt)) = num_players a
      \<and> seller_index (snd (sealed_bid a p amt)) = seller_index a"
    by (simp add: sealed_bid_def)
  have pas: "num_players (sealed_pass a p) = num_players a
      \<and> seller_index (sealed_pass a p) = seller_index a"
    by (simp add: sealed_pass_def)
  show ?thesis
  proof (cases act)
    case Bid
    then show ?thesis
      using assms chk[of "snd (sealed_bid a p amt)"] bid
      by (cases "sealed_bid a p amt"; cases "fst (sealed_bid a p amt)")
         (simp_all add: process_action_def)
  next
    case Pass
    then show ?thesis
      using assms chk[of "sealed_pass a p"] pas by (simp add: process_action_def)
  qed (use assms in \<open>simp_all add: process_action_def\<close>)
qed

lemma sealed_inv_run:
  "sealed_inv a \<Longrightarrow> \<forall>x \<in> set acts. 0 \<le> fst x \<and> fst x < int (num_players a) \<Longrightarrow>
     sealed_inv (auction_run a acts) \<and> num_players (auction_run a acts) = num_players a
     \<and> seller_index (auction_run a acts) = seller_index a"
proof (induction acts arbitrary: a)
  case Nil
  then show ?case by simp
next
  case (Cons x rest)
  let ?a1 = "snd (snd (process_action a (fst x) (fst (snd x)) (snd (snd x))))"
  have i1: "sealed_inv ?a1" using Cons.prems by (simp add: sealed_inv_step)
  have n1: "num_players ?a1 = num_players a"
    using Cons.prems by (simp add: sealed_step_num_players sealed_inv_def)
  have s1: "seller_index ?a1 = seller_index a"
    using Cons.prems by (simp add: sealed_step_num_players sealed_inv_def)
  show ?case using Cons.IH[OF i1] Cons.prems n1 s1 by simp
qed

lemma card_non_sellers:
  assumes "0 \<le> seller_index a" "seller_index a < int (num_players a)"
  shows "finite (non_sellers a)" "int (card (non_sellers a)) = int (num_players a) - 1"
proof -
  have eq: "non_sellers a = int ` {0..<num_players a} - {seller_index a}"
  proof -
    have "\<And>p. 0 \<le> p \<Longrightarrow> p < int (num_players a) \<Longrightarrow> p \<in> int ` {0..<num_players a}"
      by (metis atLeastLessThan_iff image_eqI nat_less_iff nat_int zero_le int_nat_eq)
    then show ?thesis by (auto simp: non_sellers_def)
  qed
  show "finite (non_sellers a)" by (simp add: eq)
  have "seller_index a \<in> int ` {0..<num_players a}"
    using assms by (metis atLeastLessThan_iff image_eqI nat_less_iff zero_le int_nat_eq)
  then have "card (non_sellers a) = num_players a - 1"
    by (simp add: eq card_image)
  then show "int (card (non_sellers a)) = int (num_players a) - 1"
    using assms by auto
qed

lemma check_sealed_resolved_iff:
  assumes "sealed_inv a"
  shows "fst (check_sealed_resolved a) \<noteq> None \<longleftrightarrow> fst ` set (bids a) = non_sellers a"
proof -
  have sub: "fst ` set (bids a) \<subseteq> non_sellers a"
    using assms by (auto simp: sealed_inv_def non_sellers_def)
  have len: "card (fst ` set (bids a)) = length (bids a)"
    using assms distinct_card[of "map fst (bids a)"] by (simp add: sealed_inv_def)
  have cn: "finite (non_sellers a)" "int (card (non_sellers a)) = int (num_players a) - 1"
    using assms card_non_sellers[of a] by (simp_all add: sealed_inv_def)
  have r: "fst (check_sealed_resolved a) \<noteq> None \<longleftrightarrow>
            int (num_players a) - 1 \<le> int (length (bids a))"
    using assms by (auto simp: check_sealed_resolved_def sealed_inv_def Let_def split: list.splits)
  show ?thesis
  proof
    assume "fst (check_sealed_resolved a) \<noteq> None"
    then have "card (non_sellers a) \<le> card (fst ` set (bids a))"
      using r cn len by linarith
    then show "fst ` set (bids a) = non_sellers a"
      using sub cn(1) by (simp add: card_seteq)
  next
    assume "fst ` set (bids a) = non_sellers a"
    then show "fst (check_sealed_resolved a) \<noteq> None"
      using r cn len by simp
  qed
qed

lemma max_by_key_mem: "max_by_key key m xs \<in> set (m # xs)"
  by (induction xs arbitrary: m) auto

lemma max_by_key_first: "key m \<le> key (max_by_key key m xs)"
proof (induction xs arbitrary: m)
  case Nil
  then show ?case by simp
next
  case (Cons y ys)
  show ?case
    using Cons.IH[of "if key m < key y then y else m"]
    by (auto split: if_splits)
qed

lemma max_by_key_ge: "x \<in> set (m # xs) \<Longrightarrow> key x \<le> key (max_by_key key m xs)"
proof (induction xs arbitrary: m)
  case Nil
  then show ?case by simp
next
  case (Cons y ys)
  have mono: "\<And>m'. key m' \<le> key (max_by_key key m' ys)"
    by (rule max_by_key_first)
  show ?case
  proof (cases "x = m")
    case True
    then show ?thesis
      using mono[of "if key m < key y then y else m"]
      by (auto split: if_splits)
  next
    case False
    then have "x = y \<or> x \<in> set ys" using Cons.prems by auto
    then show ?thesis
    proof
      assume "x = y"
      then show ?thesis
        using mono[of "if key m < key y then y else m"]
        by (auto split: if_splits)
    next
      assume "x \<in> set ys"
      then show ?thesis using Cons.IH[of "if key m < key y then y else m"] by simp
    qed
  qed
qed

lemma check_sealed_resolved_result:
  assumes "sealed_inv a" and "fst (check_sealed_resolved a) = Some r"
  shows "if \<forall>x \<in> set (bids a). snd x = 0
         then r = \<lparr> winner_index = seller_index a, price = 0,
                     result_seller = seller_index a \<rparr>
         else (winner_index r, price r) \<in> set (bids a)
              \<and> result_seller r = seller_index a
              \<and> (\<forall>x \<in> set (bids a).
                    snd x \<le> price r \<and> (snd x = price r \<longrightarrow> winner_index r \<le> fst x))"
proof (cases "bids a")
  case Nil
  then show ?thesis
    using assms by (auto simp: check_sealed_resolved_def Let_def split: if_splits)
next
  case (Cons b bs)
  define mx where "mx = max_by_key id (snd b) (map snd bs)"
  define w where "w = max_by_key sealed_key b bs"
  have nonneg: "\<forall>x \<in> set (bids a). 0 \<le> snd x"
    using assms by (auto simp: sealed_inv_def)
  have mx_mem: "mx \<in> snd ` set (bids a)"
    using max_by_key_mem[of id "snd b" "map snd bs"] by (auto simp: mx_def Cons)
  have mx_ge: "\<forall>x \<in> set (bids a). snd x \<le> mx"
  proof
    fix x assume "x \<in> set (bids a)"
    then have "snd x \<in> set (snd b # map snd bs)" by (auto simp: Cons)
    from max_by_key_ge[OF this, of id] show "snd x \<le> mx" by (simp add: mx_def)
  qed
  have zero: "mx = 0 \<longleftrightarrow> (\<forall>x \<in> set (bids a). snd x = 0)"
    using mx_mem mx_ge nonneg by (metis imageE order_antisym)
  have w_mem: "w \<in> set (bids a)"
    using max_by_key_mem[of sealed_key b bs] by (simp add: w_def Cons)
  have w_ge: "\<forall>x \<in> set (bids a). snd x \<le> snd w \<and> (snd x = snd w \<longrightarrow> fst w \<le> fst x)"
  proof
    fix x assume "x \<in> set (bids a)"
    then have "x \<in> set (b # bs)" by (simp add: Cons)
    from max_by_key_ge[OF this, of sealed_key]
    have "sealed_key x \<le> sealed_key w" by (simp add: w_def)
    then show "snd x \<le> snd w \<and> (snd x = snd w \<longrightarrow> fst w \<le> fst x)"
      by (auto simp: sealed_key_def less_eq_prod_def)
  qed
  have res: "r = (if mx = 0
                  then \<lparr> winner_index = seller_index a, price = 0,
                          result_seller = seller_index a \<rparr>
                  else \<lparr> winner_index = fst w, price = snd w,
                          result_seller = seller_index a \<rparr>)"
    using assms(2) by (auto simp: check_sealed_resolved_def Let_def Cons mx_def w_def
        split: if_splits)
  show ?thesis
    using res zero w_mem w_ge by auto
qed

text \<open>
  C5. Let \<open>a\<close> be a sealed auction of \<open>n\<close> players after any list of actions by players
  with valid indices. It resolves exactly when every one of the \<open>n - 1\<close> non-sellers has a
  recorded bid; a pass by a non-seller without a bid is recorded as a bid of 0. When it
  resolves and all bids are 0 the seller acquires the card at price 0; otherwise the
  winner's recorded bid is the highest, and among equal highest bids the winner has the
  lowest player index.
\<close>

theorem sealed_resolution:
  assumes "0 \<le> seller" and "seller < int n"
    and "\<forall>x \<in> set acts. 0 \<le> fst x \<and> fst x < int n"
    and "a = auction_run (new_Auction Sealed seller c n dc) acts"
  shows "(fst (check_sealed_resolved a) \<noteq> None \<longleftrightarrow>
            fst ` set (bids a) = {p. 0 \<le> p \<and> p < int n \<and> p \<noteq> seller})
       \<and> int (length (bids a)) \<le> int n - 1
       \<and> (\<forall>r. fst (check_sealed_resolved a) = Some r \<longrightarrow>
            (if \<forall>x \<in> set (bids a). snd x = 0
             then r = \<lparr> winner_index = seller, price = 0, result_seller = seller \<rparr>
             else (winner_index r, price r) \<in> set (bids a)
                  \<and> result_seller r = seller
                  \<and> (\<forall>x \<in> set (bids a).
                        snd x \<le> price r \<and> (snd x = price r \<longrightarrow> winner_index r \<le> fst x))))
       \<and> (\<forall>p amt. 0 \<le> p \<and> p < int n \<and> p \<noteq> seller \<and> p \<notin> fst ` set (bids a) \<longrightarrow>
            bids (snd (snd (process_action a p Pass amt))) = bids a @ [(p, 0)])"
proof -
  have new: "sealed_inv (new_Auction Sealed seller c n dc)"
    using assms by (simp add: sealed_inv_new)
  have np: "num_players (new_Auction Sealed seller c n dc) = n"
    and sl: "seller_index (new_Auction Sealed seller c n dc) = seller"
    by (simp_all add: new_Auction_def)
  have run: "sealed_inv a \<and> num_players a = n \<and> seller_index a = seller"
    using sealed_inv_run[OF new, of acts] assms np sl by simp
  then have inv: "sealed_inv a" and n: "num_players a = n" and s: "seller_index a = seller"
    by simp_all
  have ns: "non_sellers a = {p. 0 \<le> p \<and> p < int n \<and> p \<noteq> seller}"
    by (simp add: non_sellers_def n s)
  have A: "fst (check_sealed_resolved a) \<noteq> None \<longleftrightarrow>
            fst ` set (bids a) = {p. 0 \<le> p \<and> p < int n \<and> p \<noteq> seller}"
    using check_sealed_resolved_iff[OF inv] ns by simp
  have B: "int (length (bids a)) \<le> int n - 1"
  proof -
    have sub: "fst ` set (bids a) \<subseteq> non_sellers a"
      using inv by (auto simp: sealed_inv_def non_sellers_def)
    have len: "card (fst ` set (bids a)) = length (bids a)"
      using inv distinct_card[of "map fst (bids a)"] by (simp add: sealed_inv_def)
    have cn: "finite (non_sellers a)" "int (card (non_sellers a)) = int (num_players a) - 1"
      using inv card_non_sellers[of a] by (simp_all add: sealed_inv_def)
    have "card (fst ` set (bids a)) \<le> card (non_sellers a)"
      using sub cn(1) by (simp add: card_mono)
    then show ?thesis using len cn(2) n by linarith
  qed
  have C: "\<forall>r. fst (check_sealed_resolved a) = Some r \<longrightarrow>
            (if \<forall>x \<in> set (bids a). snd x = 0
             then r = \<lparr> winner_index = seller, price = 0, result_seller = seller \<rparr>
             else (winner_index r, price r) \<in> set (bids a)
                  \<and> result_seller r = seller
                  \<and> (\<forall>x \<in> set (bids a).
                        snd x \<le> price r \<and> (snd x = price r \<longrightarrow> winner_index r \<le> fst x)))"
  proof (intro allI impI)
    fix r assume "fst (check_sealed_resolved a) = Some r"
    from check_sealed_resolved_result[OF inv this]
    show "if \<forall>x \<in> set (bids a). snd x = 0
             then r = \<lparr> winner_index = seller, price = 0, result_seller = seller \<rparr>
             else (winner_index r, price r) \<in> set (bids a)
                  \<and> result_seller r = seller
                  \<and> (\<forall>x \<in> set (bids a).
                        snd x \<le> price r \<and> (snd x = price r \<longrightarrow> winner_index r \<le> fst x))"
      unfolding s .
  qed
  have D: "\<forall>p amt. 0 \<le> p \<and> p < int n \<and> p \<noteq> seller \<and> p \<notin> fst ` set (bids a) \<longrightarrow>
            bids (snd (snd (process_action a p Pass amt))) = bids a @ [(p, 0)]"
  proof (intro allI impI)
    fix p amt
    assume h: "0 \<le> p \<and> p < int n \<and> p \<noteq> seller \<and> p \<notin> fst ` set (bids a)"
    have ty: "auction_type a = Sealed" using inv by (simp add: sealed_inv_def)
    have "bids (sealed_pass a p) = bids a @ [(p, 0)]"
      using h s by (simp add: sealed_pass_def update_fresh)
    moreover have "bids (snd (check_sealed_resolved (sealed_pass a p))) = bids (sealed_pass a p)"
      using check_sealed_resolved_snd[of "sealed_pass a p"] by (elim disjE) simp_all
    ultimately show "bids (snd (snd (process_action a p Pass amt))) = bids a @ [(p, 0)]"
      using ty by (simp add: process_action_def)
  qed
  show ?thesis using A B C D by blast
qed

theorem sealed_resolution_witness:
  "fst (snd (process_action
        (auction_run (new_Auction Sealed 0 example_card 4 None) [(1, Bid, 3000), (2, Bid, 3000)])
        3 Pass 0))
     = Some \<lparr> winner_index = 1, price = 3000, result_seller = 0 \<rparr>
   \<and> fst (check_sealed_resolved
        (auction_run (new_Auction Sealed 0 example_card 4 None) [(1, Bid, 3000), (2, Bid, 3000)]))
     = None
   \<and> bids (auction_run (new_Auction Sealed 0 example_card 4 None)
           [(1, Bid, 3000), (2, Bid, 3000), (3, Pass, 0)]) = [(1, 3000), (2, 3000), (3, 0)]
   \<and> fst (check_sealed_resolved
        (auction_run (new_Auction Sealed 0 example_card 4 None)
           [(1, Bid, 3000), (2, Bid, 3000), (3, Pass, 0)]))
     = Some \<lparr> winner_index = 1, price = 3000, result_seller = 0 \<rparr>"
  using sealed_resolution[of 0 4 "[(1, Bid, 3000), (2, Bid, 3000), (3, Pass, 0)]"
      "auction_run (new_Auction Sealed 0 example_card 4 None)
           [(1, Bid, 3000), (2, Bid, 3000), (3, Pass, 0)]" example_card None]
  by (simp add: new_Auction_def process_action_def sealed_bid_def sealed_pass_def
      check_sealed_resolved_def sealed_key_def example_card_def Let_def)

section \<open>Rejected actions\<close>

text \<open>
  C3 (as amended). Whenever \<^verbatim>\<open>process_action\<close> returns a failure, it returns no result and
  the auction is exactly as before. A bid is refused with a failure exactly when the seller
  bids (open, sealed), the bidder does not hold the turn (once around), the amount is not
  above the current bid (open, once around) or negative (sealed), a bid is already recorded
  (sealed), or the amount is not a multiple of 1000; setting a price is refused exactly
  when the auction is not waiting for a price or the price is not a positive multiple of
  1000. An accept by a player who does not hold the turn, and an action that the protocol
  of the auction does not define, return neither failure nor result and leave the auction
  exactly as before.
\<close>


theorem process_action_rejection:
  assumes "process_action a p act amt = (e, r, a')"
  shows "(e \<noteq> None \<longrightarrow> r = None \<and> a' = a)
       \<and> (auction_type a = Open \<and> act = Bid \<longrightarrow>
            (e \<noteq> None \<longleftrightarrow> p = seller_index a \<or> amt \<le> current_bid a \<or> amt mod 1000 \<noteq> 0))
       \<and> (auction_type a = Once_Around \<and> act = Bid \<longrightarrow>
            (e \<noteq> None \<longleftrightarrow>
               p \<noteq> current_turn_index a \<or> amt \<le> current_bid a \<or> amt mod 1000 \<noteq> 0))
       \<and> (auction_type a = Sealed \<and> act = Bid \<longrightarrow>
            (e \<noteq> None \<longleftrightarrow>
               p = seller_index a \<or> p \<in> fst ` set (bids a) \<or> amt < 0 \<or> amt mod 1000 \<noteq> 0))
       \<and> (auction_type a = Fixed_Price \<and> act = Set_Price \<longrightarrow>
            (e \<noteq> None \<longleftrightarrow> state a \<noteq> WAITING_FOR_PRICE \<or> amt \<le> 0 \<or> amt mod 1000 \<noteq> 0))
       \<and> (auction_type a = Fixed_Price \<and> act = Accept \<and> p \<noteq> current_turn_index a \<longrightarrow>
            e = None \<and> r = None \<and> a' = a)
       \<and> ((auction_type a \<in> {Open, Once_Around, Sealed} \<and> act \<in> {Set_Price, Accept, Decline})
          \<or> (auction_type a = Fixed_Price \<and> act = Bid)
          \<or> auction_type a = Double \<longrightarrow>
            e = None \<and> r = None \<and> a' = a)"
proof -
  have 1: "e \<noteq> None \<longrightarrow> r = None \<and> a' = a"
    using assms
    by (auto simp: process_action_def open_bid_def once_around_bid_def sealed_bid_def
        set_fixed_price_def Let_def split: if_splits)
  have 2: "auction_type a = Open \<and> act = Bid \<longrightarrow>
            (e \<noteq> None \<longleftrightarrow> p = seller_index a \<or> amt \<le> current_bid a \<or> amt mod 1000 \<noteq> 0)"
    using assms by (auto simp: process_action_def open_bid_def split: if_splits)
  have 3: "auction_type a = Once_Around \<and> act = Bid \<longrightarrow>
            (e \<noteq> None \<longleftrightarrow>
               p \<noteq> current_turn_index a \<or> amt \<le> current_bid a \<or> amt mod 1000 \<noteq> 0)"
    using assms by (auto simp: process_action_def once_around_bid_def Let_def split: if_splits)
  have 4: "auction_type a = Sealed \<and> act = Bid \<longrightarrow>
            (e \<noteq> None \<longleftrightarrow>
               p = seller_index a \<or> p \<in> fst ` set (bids a) \<or> amt < 0 \<or> amt mod 1000 \<noteq> 0)"
    using assms by (auto simp: process_action_def sealed_bid_def split: if_splits)
  have 5: "auction_type a = Fixed_Price \<and> act = Set_Price \<longrightarrow>
            (e \<noteq> None \<longleftrightarrow> state a \<noteq> WAITING_FOR_PRICE \<or> amt \<le> 0 \<or> amt mod 1000 \<noteq> 0)"
    using assms by (auto simp: process_action_def set_fixed_price_def Let_def split: if_splits)
  have 6: "auction_type a = Fixed_Price \<and> act = Accept \<and> p \<noteq> current_turn_index a \<longrightarrow>
            e = None \<and> r = None \<and> a' = a"
    using assms by (auto simp: process_action_def fixed_price_accept_def)
  have 7: "(auction_type a \<in> {Open, Once_Around, Sealed} \<and> act \<in> {Set_Price, Accept, Decline})
          \<or> (auction_type a = Fixed_Price \<and> act = Bid)
          \<or> auction_type a = Double \<longrightarrow>
            e = None \<and> r = None \<and> a' = a"
    using assms by (auto simp: process_action_def)
  show ?thesis using 1 2 3 4 5 6 7 by blast
qed

theorem process_action_rejection_witness:
  "process_action (new_Auction Open 0 example_card 3 None) 0 Bid 5000
     = (Some Seller_cannot_bid, None, new_Auction Open 0 example_card 3 None)
   \<and> process_action (start_once_around (new_Auction Once_Around 0 example_card 4 None)) 2 Bid 5000
     = (Some Not_your_turn, None, start_once_around (new_Auction Once_Around 0 example_card 4 None))
   \<and> process_action (new_Auction Sealed 0 example_card 4 None) 1 Bid (- 1000)
     = (Some Invalid_bid_amount, None, new_Auction Sealed 0 example_card 4 None)
   \<and> process_action (new_Auction Fixed_Price 0 example_card 4 None) 0 Set_Price 1500
     = (Some Price_not_multiple_of_1000, None, new_Auction Fixed_Price 0 example_card 4 None)
   \<and> process_action (new_Auction Open 0 example_card 3 None) 1 Set_Price 5000
     = (None, None, new_Auction Open 0 example_card 3 None)"
  using
    process_action_rejection[of "new_Auction Open 0 example_card 3 None" 0 Bid 5000
      "Some Seller_cannot_bid" None "new_Auction Open 0 example_card 3 None"]
    process_action_rejection[of "start_once_around (new_Auction Once_Around 0 example_card 4 None)"
      2 Bid 5000 "Some Not_your_turn" None
      "start_once_around (new_Auction Once_Around 0 example_card 4 None)"]
    process_action_rejection[of "new_Auction Sealed 0 example_card 4 None" 1 Bid "- 1000"
      "Some Invalid_bid_amount" None "new_Auction Sealed 0 example_card 4 None"]
    process_action_rejection[of "new_Auction Fixed_Price 0 example_card 4 None" 0 Set_Price 1500
      "Some Price_not_multiple_of_1000" None "new_Auction Fixed_Price 0 example_card 4 None"]
    process_action_rejection[of "new_Auction Open 0 example_card 3 None" 1 Set_Price 5000
      None None "new_Auction Open 0 example_card 3 None"]
  by (simp add: new_Auction_def process_action_def open_bid_def once_around_bid_def
      sealed_bid_def set_fixed_price_def start_once_around_def get_next_player_def
      example_card_def upt_conv_Cons)

text \<open>
  Four players, seller 0, price 4000: the turn is player 1's. An accept by player 2 is
  answered with no failure (and no result).
\<close>

theorem accept_out_of_turn_no_failure:
  "current_turn_index (auction_run (new_Auction Fixed_Price 0 example_card 4 None)
       [(0, Set_Price, 4000)]) = 1
   \<and> fst (process_action (auction_run (new_Auction Fixed_Price 0 example_card 4 None)
       [(0, Set_Price, 4000)]) 2 Accept 0) = None
   \<and> fst (snd (process_action (auction_run (new_Auction Fixed_Price 0 example_card 4 None)
       [(0, Set_Price, 4000)]) 2 Accept 0)) = None"
  by (simp add: new_Auction_def process_action_def set_fixed_price_def
      check_fixed_price_resolved_def fixed_price_accept_def get_next_player_def
      example_card_def Let_def upt_conv_Cons)

text \<open>
  A pass is processed for any caller. In a once-around auction of four players with
  seller 0 the turn is player 1's; a pass by player 3 moves the cursor to the seller,
  and the auction resolves for the seller at price 0.
\<close>

lemma once_around_pass_out_of_turn:
  "current_turn_index (start_once_around (new_Auction Once_Around 0 example_card 4 None)) = 1
   \<and> fst (process_action (start_once_around (new_Auction Once_Around 0 example_card 4 None))
          3 Pass 0) = None
   \<and> fst (snd (process_action (start_once_around (new_Auction Once_Around 0 example_card 4 None))
          3 Pass 0)) = Some \<lparr> winner_index = 0, price = 0, result_seller = 0 \<rparr>"
  by (simp add: new_Auction_def process_action_def once_around_pass_def
      check_once_around_resolved_def start_once_around_def get_next_player_def
      example_card_def Let_def upt_conv_Cons)

section \<open>Conservation of money\<close>

lemma preserved_refl [simp]: "preserved g g"
  by (simp add: preserved_def)

lemma preserved_trans: "preserved g g1 \<Longrightarrow> preserved g1 g2 \<Longrightarrow> preserved g g2"
  by (simp add: preserved_def)

lemma preserved_same_players:
  "players g' = players g \<Longrightarrow> total_payouts g' = total_payouts g \<Longrightarrow> preserved g g'"
  by (simp add: preserved_def total_money_def)

lemma preserved_same_money:
  "map money (players g') = map money (players g) \<Longrightarrow> total_payouts g' = total_payouts g \<Longrightarrow>
     preserved g g'"
  by (simp add: preserved_def total_money_def) (metis length_map)

lemma sum_list_update_int:
  "k < length xs \<Longrightarrow> sum_list (xs[k := x]) = sum_list xs + x - (xs ! k :: int)"
  by (induction xs arbitrary: k) (auto split: nat.splits)

lemma map_update_same: "(map f xs)[k := f (xs ! k)] = map f xs"
proof (cases "k < length xs")
  case True
  then show ?thesis by (metis length_map list_update_id nth_map)
next
  case False
  then show ?thesis by (simp add: list_update_beyond)
qed

lemma money_give_hands: "map money (give_hands f hs ps) = map money ps"
proof -
  have "map money (give_hands f hs ps) = map (money \<circ> snd) (enumerate 0 ps)"
    by (simp add: give_hands_def case_prod_unfold comp_def)
  also have "\<dots> = map money (map snd (enumerate 0 ps))"
    by (simp only: map_map)
  also have "\<dots> = map money ps"
    by (simp only: map_snd_enumerate)
  finally show ?thesis .
qed

lemma end_round_preserved:
  assumes "end_round g = Inr g'"
  shows "preserved g g'"
proof -
  define mk where "mk = (\<lambda>a. market g a + calculate_round_values (board g) a)"
  define ps where "ps = map (\<lambda>p. p\<lparr> money := money p + player_earnings mk p, paintings := [] \<rparr>)
                 (players g)"
  define paid where "paid = sum_list (map (player_earnings mk) (players g))"
  have m: "map money ps = map (\<lambda>p. money p + player_earnings mk p) (players g)"
    by (simp add: ps_def)
  have s: "sum_list (map money ps) = total_money g + paid"
    by (simp add: m sum_list_addf total_money_def paid_def)
  have l: "length ps = length (players g)" by (simp add: ps_def)
  have "map money (players g') = map money ps \<and> total_payouts g' = total_payouts g + paid"
    using assms
    by (auto simp: end_round_def Let_def end_game_def mk_def ps_def paid_def money_give_hands
        split: if_splits sum.splits prod.splits)
  then show ?thesis
    using s l by (simp add: preserved_def total_money_def) (metis length_map)
qed

lemma advance_turn_preserved:
  assumes "advance_turn g = Inr g'"
  shows "preserved g g'"
  using assms end_round_preserved[of g g']
  by (auto simp: advance_turn_def preserved_same_players split: if_splits option.splits)

lemma list_index_less: "list_index xs i = Some k \<Longrightarrow> k < length xs"
  by (auto simp: list_index_def split: if_splits)

lemma settle_auction_preserved:
  assumes "settle_auction g r = Inr g'"
  shows "preserved g g'"
proof -
  obtain w s a where w: "list_index (players g) (winner_index r) = Some w"
    and s: "list_index (players g) (result_seller r) = Some s"
    and a: "current_auction g = Some a"
    using assms by (auto simp: settle_auction_def split: option.splits)
  have wl: "w < length (players g)" and sl: "s < length (players g)"
    using w s by (auto dest: list_index_less)
  define ps0 where "ps0 = players g"
  define ps1 where "ps1 = (if winner_index r \<noteq> result_seller r
                          then ps0[w := (ps0 ! w)\<lparr> money := money (ps0 ! w) - price r \<rparr>]
                          else ps0)"
  define ps2 where "ps2 = (if winner_index r \<noteq> result_seller r
                          then ps1[s := (ps1 ! s)\<lparr> money := money (ps1 ! s) + price r \<rparr>]
                          else ps1)"
  define ps3 where "ps3 = ps2[w := (ps2 ! w)\<lparr> paintings := paintings (ps2 ! w) @ [auction_card a] \<rparr>]"
  have "Inr g' = (Inr (g\<lparr> players := ps3, current_auction := None \<rparr>) :: py_error + Game)"
    unfolding assms[symmetric] settle_auction_def Let_def ps3_def ps2_def ps1_def ps0_def
    by (simp only: w s a option.case prod.case)
  then have g': "g' = g\<lparr> players := ps3, current_auction := None \<rparr>"
    by simp
  have l1: "length ps1 = length ps0" by (simp add: ps1_def)
  have l2: "length ps2 = length ps0" by (simp add: ps2_def l1)
  have l3: "length ps3 = length ps0" by (simp add: ps3_def l2)
  have s1: "sum_list (map money ps1) =
      sum_list (map money ps0) - (if winner_index r \<noteq> result_seller r then price r else 0)"
    using wl by (simp add: ps1_def ps0_def map_update sum_list_update_int)
  have s2: "sum_list (map money ps2) =
      sum_list (map money ps1) + (if winner_index r \<noteq> result_seller r then price r else 0)"
    using sl l1 by (simp add: ps2_def ps0_def map_update sum_list_update_int)
  have s3: "map money ps3 = map money ps2"
    by (simp add: ps3_def map_update map_update_same)
  show ?thesis
    using s1 s2 s3 l3 by (simp add: g' preserved_def total_money_def ps0_def)
qed

lemma resolve_auction_preserved:
  assumes "resolve_auction g r = Inr g'"
  shows "preserved g g'"
proof -
  obtain g1 where 1: "settle_auction g r = Inr g1" and 2: "advance_turn g1 = Inr g'"
    using assms by (auto simp: resolve_auction_def split: sum.splits)
  show ?thesis
    using settle_auction_preserved[OF 1] advance_turn_preserved[OF 2] preserved_trans by blast
qed

lemma money_set_hand [simp]: "map money (players (set_hand g pos h)) = map money (players g)"
  by (simp add: set_hand_def map_update map_update_same)

lemma set_hand_payouts [simp]: "total_payouts (set_hand g pos h) = total_payouts g"
  by (simp add: set_hand_def)

lemma inc_board_simps [simp]:
  "players (inc_board g a) = players g" "total_payouts (inc_board g a) = total_payouts g"
  by (simp_all add: inc_board_def)

lemma start_auction_simps [simp]:
  "players (start_auction g s c ty dc) = players g"
  "total_payouts (start_auction g s c ty dc) = total_payouts g"
  by (simp_all add: start_auction_def Let_def)

lemma preserved_set_hand [simp]: "preserved g (set_hand g pos h)"
  by (simp add: preserved_same_money)

lemma preserved_inc_board [simp]: "preserved g (inc_board g a)"
  by (simp add: preserved_same_players)

lemma preserved_start_auction [simp]: "preserved g (start_auction g s c ty dc)"
  by (simp add: preserved_same_players)

lemma play_single_card_preserved:
  assumes "play_single_card g player_index pos c card_index = Inr g'"
  shows "preserved g g'"
proof -
  let ?g2 = "inc_board (set_hand g pos (pop_at (nat card_index) (hand (players g ! pos)))) (artist c)"
  have p2: "preserved g ?g2" by (simp add: preserved_same_money)
  have "preserved ?g2 g'"
    using assms end_round_preserved[of ?g2 g']
    by (auto simp: play_single_card_def Let_def preserved_same_players split: if_splits)
  then show ?thesis using p2 preserved_trans by blast
qed

lemma play_double_preserved:
  assumes "play_double g player_index pos card1 idx1 card2 idx2 = Inr g'"
  shows "preserved g g'"
proof -
  let ?g2 = "inc_board (set_hand g pos (pop_at (nat (min idx1 idx2))
               (pop_at (nat (max idx1 idx2)) (hand (players g ! pos))))) (artist card1)"
  let ?g3 = "inc_board ?g2 (artist card1)"
  have p2: "preserved g ?g2" by (simp add: preserved_same_money)
  have p3: "preserved g ?g3" by (simp add: preserved_same_money)
  have "preserved ?g2 g' \<or> preserved ?g3 g'"
    using assms end_round_preserved[of ?g2 g'] end_round_preserved[of ?g3 g']
    by (auto simp: play_double_def Let_def preserved_same_players split: if_splits)
  then show ?thesis using p2 p3 preserved_trans by blast
qed

lemma play_base_card_alone_preserved:
  assumes "play_base_card_alone g player_index base = Inr g'"
  shows "preserved g g'"
proof -
  let ?g1 = "inc_board g (artist base)"
  have "preserved ?g1 g'"
    using assms end_round_preserved[of ?g1 g']
    by (auto simp: play_base_card_alone_def Let_def preserved_same_players split: if_splits)
  then show ?thesis using preserved_inc_board preserved_trans by blast
qed

lemma no_message_Inr: "no_message r = Inr (m, g') \<Longrightarrow> r = Inr g'"
  by (auto simp: no_message_def split: sum.splits)

lemma handle_play_card_preserved:
  assumes "handle_play_card g p i j = Inr (m, g')"
  shows "preserved g g'"
  using assms
  by (auto simp: handle_play_card_def Let_def preserved_same_money
      split: option.splits if_splits
      dest!: no_message_Inr play_single_card_preserved play_double_preserved)

lemma handle_double_response_preserved:
  assumes "handle_double_response g p i = Inr (m, g')"
  shows "preserved g g'"
proof (cases "\<not> waiting_for_double g \<or> p \<noteq> double_player_index g")
  case True
  then show ?thesis using assms by (simp add: handle_double_response_def)
next
  case False
  then obtain pos base where pos: "list_index (players g) p = Some pos"
    and base: "double_base_card g = Some base"
    using assms by (auto simp: handle_double_response_def split: option.splits)
  define g0 where "g0 = g\<lparr> waiting_for_double := False, double_base_card := None,
                          double_player_index := -1 \<rparr>"
  have p0: "preserved g g0" by (simp add: g0_def preserved_same_players)
  let ?h = "hand (players g ! pos)"
  let ?g2 = "inc_board (set_hand g0 pos (pop_at (nat i) ?h)) (artist base)"
  let ?g3 = "inc_board ?g2 (artist base)"
  have p2: "preserved g0 ?g2" by (simp add: preserved_same_money)
  have p3: "preserved g0 ?g3" by (simp add: preserved_same_money)
  have "preserved g0 g'"
    using assms False pos base p2 p3
      end_round_preserved[of ?g2 g'] end_round_preserved[of ?g3 g']
      play_base_card_alone_preserved[of g0 p base g']
    unfolding handle_double_response_def Let_def g0_def[symmetric]
    by (auto split: if_splits dest!: no_message_Inr
        intro: preserved_trans preserved_same_money)
  then show ?thesis using p0 preserved_trans by blast
qed

lemma after_action_preserved:
  assumes "after_action g answer = Inr (m, g')"
  shows "preserved g g'"
proof -
  obtain err result a' where ans: "answer = (err, result, a')" by (cases answer) auto
  let ?g1 = "g\<lparr> current_auction := Some a' \<rparr>"
  have p1: "preserved g ?g1" by (simp add: preserved_same_players)
  have "preserved ?g1 g'"
    using assms resolve_auction_preserved[of ?g1 _ g']
    by (auto simp: after_action_def ans Let_def split: option.splits dest!: no_message_Inr)
  then show ?thesis using p1 preserved_trans by blast
qed

lemma handle_preserved:
  assumes "handle g p act = Inr (m, g')"
  shows "preserved g g'"
proof (cases act)
  case (Play_Card i j)
  then show ?thesis using assms handle_play_card_preserved by simp
next
  case (Double_Response i)
  then show ?thesis using assms handle_double_response_preserved by simp
next
  case (Bid_Amount amount)
  then show ?thesis
    using assms after_action_preserved
    by (auto simp: handle_bid_def split: option.splits if_splits)
next
  case Pass_Auction
  then show ?thesis
    using assms after_action_preserved
    by (auto simp: handle_pass_def split: option.splits if_splits)
next
  case Accept_Price
  then show ?thesis
    using assms after_action_preserved
    by (auto simp: handle_accept_def split: option.splits if_splits)
next
  case (Set_Price_Amount amount)
  then show ?thesis
    using assms after_action_preserved
    by (auto simp: handle_set_price_def split: option.splits if_splits)
qed

lemma start_money:
  assumes "start (new_Game (map new_Player ais)) shuffled = Inr g"
  shows "total_money g = int (length (players g)) * STARTING_MONEY \<and> total_payouts g = 0"
proof -
  have "map money (players g) = map money (map new_Player ais) \<and> total_payouts g = 0"
    using assms
    by (auto simp: start_def Let_def new_Game_def money_give_hands
        split: sum.splits prod.splits if_splits)
  moreover have "sum_list (map money (map new_Player ais)) = int (length ais) * STARTING_MONEY"
    by (induction ais) (simp_all add: new_Player_def algebra_simps)
  ultimately show ?thesis
    by (simp add: total_money_def) (metis length_map)
qed

text \<open>
  C1. In every state of a game that is reached from its start by actions of its players,
  the money of all players together is the number of players times the starting money
  of 100000 plus the round-end payouts made so far. The code holds no money in escrow
  during an auction: a bid is only recorded, and the price is moved from the winner to
  the seller when the auction resolves, so the escrowed amount of the claim is zero.
\<close>

theorem money_conservation:
  assumes "reachable g"
  shows "total_money g = int (length (players g)) * STARTING_MONEY + total_payouts g"
  using assms
proof (induction rule: reachable.induct)
  case (started shuffled ais g)
  then show ?case using start_money by simp
next
  case (acted g p act m g')
  then show ?case using handle_preserved[of g p act m g'] by (simp add: preserved_def)
qed

lemma handle_length:
  "handle g p act = Inr (m, g') \<Longrightarrow> length (players g') = length (players g)"
  using handle_preserved[of g p act m g'] by (simp add: preserved_def)

lemma reachable_game_run:
  "reachable g \<Longrightarrow> \<forall>x \<in> set acts. 0 \<le> fst x \<and> fst x < int (length (players g)) \<Longrightarrow>
     game_run g acts = Inr g' \<Longrightarrow> reachable g'"
proof (induction acts arbitrary: g)
  case Nil
  then show ?case by simp
next
  case (Cons x rest)
  then obtain m g1 where h: "handle g (fst x) (snd x) = Inr (m, g1)"
    and r: "game_run g1 rest = Inr g'"
    by (auto split: sum.splits)
  have "reachable g1"
    using Cons.prems h reachable.acted[of g "fst x" "snd x" m g1] by simp
  moreover have "length (players g1) = length (players g)"
    using h by (rule handle_length)
  ultimately show ?case using Cons.IH[of g1] Cons.prems r by simp
qed

lemma example_game_started:
  "start (new_Game (map new_Player [False, False, False])) create_deck = Inr example_game"
proof -
  have "\<not> isl (start (new_Game (map new_Player [False, False, False])) create_deck)"
    by code_simp
  then show ?thesis by (simp add: example_game_def)
qed

lemma example_game_reachable: "reachable example_game"
  using reachable.started[OF _ example_game_started] by simp

lemma example_game_players: "length (players example_game) = 3"
  by code_simp

lemma reachable_example_run:
  assumes "\<not> isl (game_run example_game acts)"
    and "\<forall>x \<in> set acts. 0 \<le> fst x \<and> fst x < 3"
  shows "reachable (projr (game_run example_game acts))"
proof -
  have "game_run example_game acts = Inr (projr (game_run example_game acts))"
    using assms(1) by simp
  then show ?thesis
    using reachable_game_run[OF example_game_reachable, of acts] assms(2)
    by (simp add: example_game_players)
qed

theorem money_conservation_witness:
  "total_money (projr (game_run example_game first_round)) = 420000
   \<and> total_payouts (projr (game_run example_game first_round)) = 120000
   \<and> length (players (projr (game_run example_game first_round))) = 3"
proof -
  have 1: "\<not> isl (game_run example_game first_round)"
    by code_simp
  have 2: "\<forall>x \<in> set first_round. 0 \<le> fst x \<and> fst x < 3"
    by code_simp
  have 3: "total_payouts (projr (game_run example_game first_round)) = 120000"
    by code_simp
  have 4: "length (players (projr (game_run example_game first_round))) = 3"
    by code_simp
  show ?thesis
    using money_conservation[OF reachable_example_run[OF 1 2]] 3 4
    by (simp add: STARTING_MONEY_def)
qed

section \<open>The board count\<close>

text \<open>During a double play the round end is checked after the first increment: when the
  first card brings the count to 5, the second increment is not made and no auction
  starts.\<close>

lemma play_double_first_increment_ends_round:
  assumes "board g (artist card1) = 4"
  shows "play_double g player_index pos card1 idx1 card2 idx2 =
           end_round (inc_board (set_hand g pos (pop_at (nat (min idx1 idx2))
              (pop_at (nat (max idx1 idx2)) (hand (players g ! pos))))) (artist card1))"
  using assms
  by (simp add: play_double_def Let_def check_round_end_def inc_board_def set_hand_def
      ROUND_END_CARD_COUNT_def)

text \<open>
  C2. A board count of 6 is reached in the sample game. Before the last two actions of
  \<open>stale_double_trace\<close> the count of Red is 4 in round 4 and a double request of player 1
  is open; \<^verbatim>\<open>handle_play_card\<close> does not look at the open request, so player 1 plays a
  fifth Red card, which ends round 4 and the game with a count of 5 (the board is not
  cleared when the game ends); \<^verbatim>\<open>handle_double_response\<close> does not look at
  \<^verbatim>\<open>game_over\<close>, so the answer to the open request adds the base card: the count is 6.
\<close>

theorem board_count_six_reachable:
  "reachable (projr (game_run example_game stale_double_trace))
   \<and> board (projr (game_run example_game (butlast (butlast stale_double_trace)))) Red_Tarou = 4
   \<and> waiting_for_double (projr (game_run example_game (butlast (butlast stale_double_trace))))
   \<and> board (projr (game_run example_game (butlast stale_double_trace))) Red_Tarou = 5
   \<and> game_over (projr (game_run example_game (butlast stale_double_trace)))
   \<and> board (projr (game_run example_game stale_double_trace)) Red_Tarou = 6"
proof -
  have 1: "\<not> isl (game_run example_game stale_double_trace)"
    by code_simp
  have 2: "\<forall>x \<in> set stale_double_trace. 0 \<le> fst x \<and> fst x < 3"
    by code_simp
  have 3: "board (projr (game_run example_game (butlast (butlast stale_double_trace)))) Red_Tarou = 4"
    by code_simp
  have 4: "waiting_for_double (projr (game_run example_game (butlast (butlast stale_double_trace))))"
    by code_simp
  have 5: "board (projr (game_run example_game (butlast stale_double_trace))) Red_Tarou = 5"
    by code_simp
  have 6: "game_over (projr (game_run example_game (butlast stale_double_trace)))"
    by code_simp
  have 7: "board (projr (game_run example_game stale_double_trace)) Red_Tarou = 6"
    by code_simp
  show ?thesis
    using reachable_example_run[OF 1 2] 3 4 5 6 7 by simp
qed

section \<open>Fixed price: everybody declines\<close>

lemma check_fixed_price_resolved_snd:
  "snd (check_fixed_price_resolved b) = b
   \<or> snd (check_fixed_price_resolved b) = b\<lparr> state := RESOLVED \<rparr>"
  by (simp add: check_fixed_price_resolved_def)

lemma list_index_valid: "0 \<le> i \<Longrightarrow> i < int (length xs) \<Longrightarrow> list_index xs i = Some (nat i)"
  by (simp add: list_index_def)

lemma advance_turn_has_cards:
  assumes "list_ex (\<lambda>q. length (hand q) > 0) (players g)"
  shows "\<exists>g2. advance_turn g = Inr g2 \<and> players g2 = players g"
proof (cases "List.find (\<lambda>next_idx. length (hand (players g ! nat next_idx)) > 0)
                   (map (\<lambda>i. (current_turn g + int i) mod int (game_num_players g))
                      [1..<game_num_players g + 1])")
  case None
  then show ?thesis using assms by (simp add: advance_turn_def)
next
  case (Some next_idx)
  then show ?thesis using assms by (simp add: advance_turn_def)
qed

text \<open>
  C7. In a fixed-price auction that waits for an accept, when a decline (or pass) moves
  the cursor back to the seller (or leaves nobody to ask), \<^verbatim>\<open>process_action\<close> resolves
  the auction with the seller as winner at the seller's own asking price. Settling this
  result moves no money: every balance, the seller's too, is as before, and the seller gets
  the painting. The whole entry point \<^verbatim>\<open>handle_pass\<close> then advances the turn, and while
  some player still holds a card it leaves every balance as before.
\<close>

theorem fixed_price_all_decline:
  assumes "current_auction g = Some a"
    and "auction_type a = Fixed_Price" and "state a = WAITING_FOR_ACCEPT"
    and "current_turn_index (fixed_price_decline a p) = seller_index a
         \<or> current_turn_index (fixed_price_decline a p) = -1"
    and "0 \<le> seller_index a" and "seller_index a < int (length (players g))"
    and "r = \<lparr> winner_index = seller_index a, price = fixed_price a,
                result_seller = seller_index a \<rparr>"
    and "a' = (fixed_price_decline a p)\<lparr> state := RESOLVED \<rparr>"
  shows "process_action a p Decline amt = (None, Some r, a')
       \<and> process_action a p Pass amt = (None, Some r, a')
       \<and> (\<exists>g1. settle_auction (g\<lparr> current_auction := Some a' \<rparr>) r = Inr g1
              \<and> map money (players g1) = map money (players g)
              \<and> current_auction g1 = None
              \<and> handle_pass g p = no_message (advance_turn g1)
              \<and> (list_ex (\<lambda>q. length (hand q) > 0) (players g) \<longrightarrow>
                   (\<exists>g2. handle_pass g p = Inr (None, g2)
                        \<and> map money (players g2) = map money (players g))))"
proof -
  let ?b = "fixed_price_decline a p"
  have b: "state ?b = WAITING_FOR_ACCEPT" "seller_index ?b = seller_index a"
    "fixed_price ?b = fixed_price a"
    using assms(3) by (simp_all add: fixed_price_decline_def Let_def)
  have chk: "check_fixed_price_resolved ?b = (Some r, a')"
    using assms(4) b by (auto simp: check_fixed_price_resolved_def assms(7,8))
  have pa: "\<And>x. process_action a p Decline x = (None, Some r, a')"
    "\<And>x. process_action a p Pass x = (None, Some r, a')"
    using assms(2) chk by (simp_all add: process_action_def)
  let ?g = "g\<lparr> current_auction := Some a' \<rparr>"
  let ?s = "nat (seller_index a)"
  define g1 where "g1 = ?g\<lparr> players := (players g)[?s := (players g ! ?s)
                     \<lparr> paintings := paintings (players g ! ?s) @ [auction_card a'] \<rparr>],
                   current_auction := None \<rparr>"
  have li: "list_index (players ?g) (seller_index a) = Some ?s"
    using assms(5,6) by (simp add: list_index_valid)
  have settle: "settle_auction ?g r = Inr g1"
    unfolding settle_auction_def Let_def g1_def
    using li by (simp add: assms(7))
  have money: "map money (players g1) = map money (players g)"
    by (simp add: g1_def map_update map_update_same)
  have hp: "handle_pass g p = no_message (advance_turn g1)"
    using assms(1) pa(2)[of 0] settle
    by (simp add: handle_pass_def after_action_def resolve_auction_def Let_def)
  have hands: "map hand (players g1) = map hand (players g)"
    by (simp add: g1_def map_update map_update_same)
  have ex: "list_ex (\<lambda>q. length (hand q) > 0) (players g1)
            = list_ex (\<lambda>q. length (hand q) > 0) (players g)"
  proof -
    have "list_ex (\<lambda>q. length (hand q) > 0) (players g1)
          = list_ex (\<lambda>h. length h > 0) (map hand (players g1))"
      by (simp add: list_ex_iff)
    also have "\<dots> = list_ex (\<lambda>h. length h > 0) (map hand (players g))"
      by (simp only: hands)
    also have "\<dots> = list_ex (\<lambda>q. length (hand q) > 0) (players g)"
      by (simp add: list_ex_iff)
    finally show ?thesis .
  qed
  have adv: "list_ex (\<lambda>q. length (hand q) > 0) (players g) \<longrightarrow>
                   (\<exists>g2. handle_pass g p = Inr (None, g2)
                        \<and> map money (players g2) = map money (players g))"
  proof
    assume "list_ex (\<lambda>q. length (hand q) > 0) (players g)"
    then have e: "list_ex (\<lambda>q. length (hand q) > 0) (players g1)" using ex by simp
    then obtain g2 where a2: "advance_turn g1 = Inr g2" and p2: "players g2 = players g1"
      using advance_turn_has_cards[of g1] by blast
    then show "\<exists>g2. handle_pass g p = Inr (None, g2)
                        \<and> map money (players g2) = map money (players g)"
      using hp money by (simp add: no_message_def)
  qed
  have "current_auction g1 = None" by (simp add: g1_def)
  then show ?thesis using pa settle money hp adv by blast
qed


theorem fixed_price_all_decline_witness:
  "map card_type (hand (players example_game4 ! 0)) ! 2 = Fixed_Price
   \<and> map_option current_turn_index
        (current_auction (projr (game_run example_game4 fixed_price_declines))) = Some 3
   \<and> fst (snd (process_action
          (the (current_auction (projr (game_run example_game4 fixed_price_declines)))) 3 Pass 0))
       = Some \<lparr> winner_index = 0, price = 4000, result_seller = 0 \<rparr>
   \<and> map money (players (projr (game_run example_game4 fixed_price_declines)))
       = [100000, 100000, 100000, 100000]
   \<and> map money (players (snd (projr
          (handle_pass (projr (game_run example_game4 fixed_price_declines)) 3))))
       = [100000, 100000, 100000, 100000]
   \<and> map (\<lambda>q. map card_id (paintings q)) (players (snd (projr
          (handle_pass (projr (game_run example_game4 fixed_price_declines)) 3))))
       = [[8], [], [], []]"
proof -
  let ?g = "projr (game_run example_game4 fixed_price_declines)"
  let ?a = "the (current_auction ?g)"
  have h1: "current_auction ?g = Some ?a" by code_simp
  have h2: "auction_type ?a = Fixed_Price" by code_simp
  have h3: "state ?a = WAITING_FOR_ACCEPT" by code_simp
  have h4: "current_turn_index (fixed_price_decline ?a 3) = seller_index ?a
         \<or> current_turn_index (fixed_price_decline ?a 3) = -1" by code_simp
  have h5: "0 \<le> seller_index ?a" by code_simp
  have h6: "seller_index ?a < int (length (players ?g))" by code_simp
  have e1: "seller_index ?a = 0" "fixed_price ?a = 4000" by code_simp+
  have e2: "map money (players ?g) = [100000, 100000, 100000, 100000]" by code_simp
  have e3: "map card_type (hand (players example_game4 ! 0)) ! 2 = Fixed_Price" by code_simp
  have e4: "map_option current_turn_index (current_auction ?g) = Some 3" by code_simp
  have e5: "list_ex (\<lambda>q. length (hand q) > 0) (players ?g)" by code_simp
  have e6: "map (\<lambda>q. map card_id (paintings q)) (players (snd (projr (handle_pass ?g 3))))
       = [[8], [], [], []]" by code_simp
  note c7 = fixed_price_all_decline[OF h1 h2 h3 h4 h5 h6 refl refl, of 0]
  have pa: "fst (snd (process_action ?a 3 Pass 0))
          = Some \<lparr> winner_index = 0, price = 4000, result_seller = 0 \<rparr>"
    using c7[THEN conjunct2, THEN conjunct1] by (simp add: e1)
  obtain g2 where g2: "handle_pass ?g 3 = Inr (None, g2)"
      "map money (players g2) = map money (players ?g)"
    using c7[THEN conjunct2, THEN conjunct2] e5 by blast
  have "snd (projr (handle_pass ?g 3)) = g2"
    by (simp only: g2(1) sum.sel snd_conv)
  then have "fst (snd (process_action ?a 3 Pass 0))
          = Some \<lparr> winner_index = 0, price = 4000, result_seller = 0 \<rparr>
        \<and> map money (players (snd (projr (handle_pass ?g 3)))) = map money (players ?g)"
    using pa g2(2) by simp
  then show ?thesis using e2 e3 e4 e6 by simp
qed

section \<open>The answer to a double request\<close>

lemma inc_board_check:
  "check_round_end (inc_board g a) a \<longleftrightarrow> 5 \<le> board g a + 1"
  by (simp add: check_round_end_def inc_board_def ROUND_END_CARD_COUNT_def)

text \<open>
  C10 (as amended). While a double decision is pending, a response of the escrowing player
  whose second-card index is out of range, or names a hand card of another artist than the
  base card, is answered with no error message and is treated exactly as a decline of the
  double: the pending decision is cleared and the base card alone gets one board
  increment; if that brings the artist's count to 5 the round ends and no auction is
  started, otherwise the base card is auctioned as an open auction.
\<close>

theorem double_response_invalid_second_card:
  assumes "waiting_for_double g" and "player_index = double_player_index g"
    and "list_index (players g) player_index = Some pos"
    and "double_base_card g = Some base"
    and "second_card_index < 0
         \<or> int (length (hand (players g ! pos))) \<le> second_card_index
         \<or> artist (hand (players g ! pos) ! nat second_card_index) \<noteq> artist base"
    and "g0 = g\<lparr> waiting_for_double := False, double_base_card := None,
                     double_player_index := -1 \<rparr>"
  shows "handle_double_response g player_index second_card_index
           = handle_double_response g player_index (-1)
       \<and> handle_double_response g player_index second_card_index
           = (if 5 \<le> board g (artist base) + 1
              then no_message (end_round (inc_board g0 (artist base)))
              else Inr (None, start_auction (inc_board g0 (artist base))
                                player_index base Open None))
       \<and> (\<forall>m g'. handle_double_response g player_index second_card_index = Inr (m, g')
              \<longrightarrow> m = None)"
proof -
  have alone: "play_base_card_alone g0 player_index base
           = (if 5 \<le> board g (artist base) + 1
              then end_round (inc_board g0 (artist base))
              else Inr (start_auction (inc_board g0 (artist base)) player_index base Open None))"
    by (simp add: play_base_card_alone_def Let_def inc_board_check assms(6))
  have decl: "handle_double_response g player_index (-1)
                = no_message (play_base_card_alone g0 player_index base)"
    using assms(1-4) by (simp add: handle_double_response_def Let_def assms(6))
  have inv: "handle_double_response g player_index second_card_index
                = no_message (play_base_card_alone g0 player_index base)"
    using assms(1-5) by (auto simp: handle_double_response_def Let_def assms(6))
  have form: "handle_double_response g player_index second_card_index
           = (if 5 \<le> board g (artist base) + 1
              then no_message (end_round (inc_board g0 (artist base)))
              else Inr (None, start_auction (inc_board g0 (artist base))
                                player_index base Open None))"
    by (simp add: inv alone no_message_def)
  have msg: "\<forall>m g'. handle_double_response g player_index second_card_index = Inr (m, g')
              \<longrightarrow> m = None"
    unfolding inv by (auto simp: no_message_def split: sum.splits)
  show ?thesis using inv decl form msg by simp
qed

theorem double_response_invalid_second_card_witness:
  "waiting_for_double (projr (game_run example_game pending_double_low))
   \<and> map_option artist (double_base_card (projr (game_run example_game pending_double_low)))
       = Some Orange_Tarou
   \<and> length (hand (players (projr (game_run example_game pending_double_low)) ! 0)) = 9
   \<and> fst (projr (handle_double_response (projr (game_run example_game pending_double_low)) 0 99))
       = None
   \<and> map_option auction_type (current_auction (snd (projr
        (handle_double_response (projr (game_run example_game pending_double_low)) 0 99))))
       = Some Open
   \<and> board (snd (projr
        (handle_double_response (projr (game_run example_game pending_double_low)) 0 99)))
        Orange_Tarou = 1"
proof -
  let ?g = "projr (game_run example_game pending_double_low)"
  let ?base = "the (double_base_card ?g)"
  have h1: "waiting_for_double ?g" by code_simp
  have h2: "0 = double_player_index ?g" by code_simp
  have h3: "list_index (players ?g) 0 = Some 0" by code_simp
  have h4: "double_base_card ?g = Some ?base" by code_simp
  have h5: "(99::int) < 0 \<or> int (length (hand (players ?g ! 0))) \<le> 99
         \<or> artist (hand (players ?g ! 0) ! nat 99) \<noteq> artist ?base" by code_simp
  have e1: "map_option artist (double_base_card ?g) = Some Orange_Tarou" by code_simp
  have e2: "length (hand (players ?g ! 0)) = 9" by code_simp
  have e3: "board ?g (artist ?base) = 0" by code_simp
  have e4: "artist ?base = Orange_Tarou" by code_simp
  from double_response_invalid_second_card[OF h1 h2 h3 h4 h5 refl, THEN conjunct2, THEN conjunct1]
  have "handle_double_response ?g 0 99
          = Inr (None, start_auction (inc_board (?g\<lparr> waiting_for_double := False,
                     double_base_card := None, double_player_index := -1 \<rparr>) (artist ?base))
                                0 ?base Open None)"
    by (simp add: e3)
  then have "fst (projr (handle_double_response ?g 0 99)) = None
     \<and> map_option auction_type (current_auction (snd (projr (handle_double_response ?g 0 99))))
         = Some Open
     \<and> board (snd (projr (handle_double_response ?g 0 99))) Orange_Tarou = 1"
    using e3 e4 by (simp add: start_auction_def inc_board_def new_Auction_def Let_def)
  then show ?thesis using h1 e1 e2 by simp
qed

text \<open>
  With four Orange cards on the board and the Orange double card of player 1 pending, the
  response with index 99 (the hand has 8 cards) ends round 1: no message, no auction, and
  round 2 begins with an empty board.
\<close>

theorem double_response_at_four_ends_round:
  "waiting_for_double (projr (game_run example_game pending_double_at_four))
   \<and> double_player_index (projr (game_run example_game pending_double_at_four)) = 1
   \<and> map_option artist (double_base_card (projr (game_run example_game pending_double_at_four)))
       = Some Orange_Tarou
   \<and> board (projr (game_run example_game pending_double_at_four)) Orange_Tarou = 4
   \<and> length (hand (players (projr (game_run example_game pending_double_at_four)) ! 1)) = 8
   \<and> fst (projr (handle_double_response
         (projr (game_run example_game pending_double_at_four)) 1 99)) = None
   \<and> current_auction (snd (projr (handle_double_response
         (projr (game_run example_game pending_double_at_four)) 1 99))) = None
   \<and> round_num (snd (projr (handle_double_response
         (projr (game_run example_game pending_double_at_four)) 1 99))) = 2
   \<and> board (snd (projr (handle_double_response
         (projr (game_run example_game pending_double_at_four)) 1 99))) Orange_Tarou = 0"
  by code_simp

end
